theory Spec2Isabelle
  imports Main
begin

section \<open>Python values, dictionaries and text\<close>

text \<open>
  A Python \<open>str\<close> is a list of Unicode code points. The text of the program itself is
  written as a literal and turned into code points by \<open>lit\<close>.
\<close>

type_synonym pystr = "nat list"

definition lit :: "string \<Rightarrow> pystr" where
  "lit s = map of_char s"

text \<open>
  The wrappers of this repository pass Python dictionaries of column name to value to
  their back ends. A value is \<open>None\<close>, a \<open>bool\<close>, an \<open>int\<close>, a \<open>float\<close> (carried by the
  text \<open>repr(value)\<close> gives for it), a \<open>str\<close>, a \<open>datetime.date\<close>/\<open>datetime.time\<close> (carried
  by the text \<open>str(value)\<close> gives for it) or a \<open>list\<close>/\<open>dict\<close> (carried by the text
  \<open>dumps_json(value)\<close> gives for it).

  A \<open>dict\<close> keeps its keys in insertion order, so it is an association list; a Python
  dictionary has every key once.
\<close>

datatype pyval =
    PNone
  | PBool bool
  | PInt int
  | PFloat pystr
  | PStr pystr
  | PDate pystr
  | PComposite pystr

type_synonym pydict = "(pystr \<times> pyval) list"

text \<open>\<open>data.keys()\<close>, \<open>data.values()\<close>, \<open>data.get(key)\<close> and \<open>data[key]\<close>.\<close>

definition keys :: "pydict \<Rightarrow> pystr list" where
  "keys data = map fst data"

definition vals :: "pydict \<Rightarrow> pyval list" where
  "vals data = map snd data"

definition dict_get :: "pydict \<Rightarrow> pystr \<Rightarrow> pyval" where
  "dict_get data key = (case map_of data key of None \<Rightarrow> PNone | Some v \<Rightarrow> v)"

text \<open>
  One entry of \<open>e.details.get("writeErrors")\<close> of a pymongo \<open>BulkWriteError\<close>: the
  fields the wrapper reads are \<open>code\<close>, \<open>op\<close> (the document that was not written) and
  \<open>errmsg\<close>.
\<close>

record write_error =
  code :: int
  op :: pydict
  errmsg :: "string option"

text \<open>
  The exceptions that occur. \<open>ValidationError\<close>, \<open>ConflictResolutionError\<close> and
  \<open>ConnectionLost\<close> are the names the specification uses; no source file defines or
  raises them. \<open>KeyError\<close> carries the key, \<open>DuplicateKeyError\<close> carries
  \<open>e.details.get("errmsg")\<close>, \<open>BulkWriteError\<close> carries \<open>e.details.get("writeErrors")\<close>.
  \<open>FormatField\<close> stands for a call of \<open>str.format\<close> whose template holds a replacement
  field with an attribute, an index, a conversion or a format specification, which
  this model does not interpret.
\<close>

datatype exn =
    ValidationError
  | ConflictResolutionError
  | ConnectionLost
  | TypeError
  | ValueError
  | IndexError
  | KeyError pystr
  | AttributeError string
  | ConnectionError
  | TimeoutError
  | DuplicateKeyError "string option"
  | BulkWriteError "write_error list"
  | OtherError string
  | FormatField

definition dict_index :: "pydict \<Rightarrow> pystr \<Rightarrow> exn + pyval" where
  "dict_index data key = (case map_of data key of None \<Rightarrow> Inl (KeyError key) | Some v \<Rightarrow> Inr v)"

text \<open>
  A parameter that is "a column or a sequence of columns": the builders test
  \<open>isinstance(update_columns, (tuple, list))\<close> and wrap a single column in a list.
\<close>

datatype columns = Single pystr | Seq "pystr list"

text \<open>\<open>if update_columns:\<close> - an empty string and an empty sequence are false.\<close>

fun truthy :: "columns \<Rightarrow> bool" where
  "truthy (Single s) = (s \<noteq> [])"
| "truthy (Seq xs) = (xs \<noteq> [])"

text \<open>\<open>if not isinstance(update_columns, (tuple, list)): update_columns = [update_columns]\<close>\<close>

fun as_list :: "columns \<Rightarrow> pystr list" where
  "as_list (Single s) = [s]"
| "as_list (Seq xs) = xs"

subsection \<open>Text\<close>

text \<open>\<open>sep.join(xs)\<close>\<close>

fun join :: "pystr \<Rightarrow> pystr list \<Rightarrow> pystr" where
  "join sep [] = []"
| "join sep [x] = x"
| "join sep (x # y # ys) = x @ sep @ join sep (y # ys)"

text \<open>
  \<open>str(i)\<close> for an \<open>int\<close>: decimal digits (the code points 48 to 57), a minus sign (45)
  for a negative number.
\<close>

fun digits :: "nat \<Rightarrow> pystr" where
  "digits n = (if n < 10 then [48 + n] else digits (n div 10) @ [48 + n mod 10])"

declare digits.simps [simp del]

definition str_int :: "int \<Rightarrow> pystr" where
  "str_int i = (if i < 0 then 45 # digits (nat (- i)) else digits (nat i))"

text \<open>
  \<open>str.strip()\<close> without argument removes leading and trailing white space: TAB to CR,
  FS to US, SPACE, NEL, NBSP, and the space and line separators beyond Latin-1.
\<close>

definition py_isspace :: "nat \<Rightarrow> bool" where
  "py_isspace c =
     ((9 \<le> c \<and> c \<le> 13) \<or> (28 \<le> c \<and> c \<le> 32) \<or> c = 133 \<or> c = 160 \<or> c = 5760
      \<or> (8192 \<le> c \<and> c \<le> 8202) \<or> c = 8232 \<or> c = 8233 \<or> c = 8239 \<or> c = 8287 \<or> c = 12288)"

definition strip :: "pystr \<Rightarrow> pystr" where
  "strip s = rev (dropWhile py_isspace (rev (dropWhile py_isspace s)))"

text \<open>
  \<open>s.replace(old, new)\<close>: every occurrence of \<open>old\<close>, found from the left and not
  overlapping, becomes \<open>new\<close>. With an empty \<open>old\<close>, \<open>new\<close> is put before every character
  and at the end.
\<close>

function str_replace :: "pystr \<Rightarrow> pystr \<Rightarrow> pystr \<Rightarrow> pystr" where
  "str_replace old new s =
     (if old = [] then new @ concat (map (\<lambda>c. c # new) s)
      else if s = [] then []
      else if take (length old) s = old then new @ str_replace old new (drop (length old) s)
      else hd s # str_replace old new (tl s))"
  by pat_completeness auto
termination
  by (relation "measure (\<lambda>(old, new, s). length s)") (auto simp: neq_Nil_conv)

declare str_replace.simps [simp del]

text \<open>
  \<open>repr(s)\<close> for a \<open>str\<close>: quoted with \<open>'\<close> (39), or with \<open>"\<close> (34) when \<open>s\<close> holds a
  \<open>'\<close> and no \<open>"\<close>. The quote and the backslash (92) are escaped with a backslash; TAB,
  LF and CR are written \<open>\t\<close>, \<open>\n\<close>, \<open>\r\<close>; the other control characters below SPACE
  and DEL are written \<open>\xhh\<close>; the rest of ASCII is copied. A code point beyond ASCII is
  copied when it is printable and written \<open>\xhh\<close>, \<open>\uhhhh\<close> or \<open>\Uhhhhhhhh\<close> otherwise.
  Which code points beyond ASCII are printable is read from the Unicode database of the
  interpreter; it is the parameter \<open>printable\<close>.
\<close>

definition hex_digit :: "nat \<Rightarrow> nat" where
  "hex_digit n = (if n mod 16 < 10 then 48 + n mod 16 else 87 + n mod 16)"

fun hex_fixed :: "nat \<Rightarrow> nat \<Rightarrow> pystr" where
  "hex_fixed 0 n = []"
| "hex_fixed (Suc k) n = hex_fixed k (n div 16) @ [hex_digit n]"

definition repr_char :: "(nat \<Rightarrow> bool) \<Rightarrow> nat \<Rightarrow> nat \<Rightarrow> pystr" where
  "repr_char printable quote c =
     (if c = quote \<or> c = 92 then [92, c]
      else if c = 9 then [92, 116]
      else if c = 10 then [92, 110]
      else if c = 13 then [92, 114]
      else if c < 32 \<or> c = 127 then [92, 120] @ hex_fixed 2 c
      else if c < 127 then [c]
      else if printable c then [c]
      else if c < 256 then [92, 120] @ hex_fixed 2 c
      else if c < 65536 then [92, 117] @ hex_fixed 4 c
      else [92, 85] @ hex_fixed 8 c)"

definition repr_str :: "(nat \<Rightarrow> bool) \<Rightarrow> pystr \<Rightarrow> pystr" where
  "repr_str printable s =
     (let quote = (if 39 \<in> set s \<and> 34 \<notin> set s then 34 else 39)
      in quote # concat (map (repr_char printable quote) s) @ [quote])"

text \<open>
  \<open>template.format(**kw)\<close> for keyword arguments that are strings. \<open>{{\<close> and \<open>}}\<close> stand
  for a brace; \<open>{name}\<close> is replaced by the argument of that name. A field without a
  name or with a number for a name asks for a positional argument, of which there is
  none (\<open>IndexError\<close>); a name that is no keyword raises \<open>KeyError\<close>; a brace without its
  partner and an opening brace inside a field name raise \<open>ValueError\<close>. The first
  failure, from the left, ends the call. A field with a point, a bracket, an exclamation
  mark or a colon (an attribute, an index, a conversion, a format specification) is
  not interpreted: the model answers \<open>FormatField\<close> for it.
\<close>

definition is_digit :: "nat \<Rightarrow> bool" where
  "is_digit c = (48 \<le> c \<and> c \<le> 57)"

definition field_syntax :: "nat \<Rightarrow> bool" where
  "field_syntax c = (c = 46 \<or> c = 91 \<or> c = 33 \<or> c = 58)"

fun prepend :: "pystr \<Rightarrow> exn + pystr \<Rightarrow> exn + pystr" where
  "prepend xs (Inl e) = Inl e"
| "prepend xs (Inr ys) = Inr (xs @ ys)"

function py_format :: "(pystr \<times> pystr) list \<Rightarrow> pystr \<Rightarrow> exn + pystr" where
  "py_format kw [] = Inr []"
| "py_format kw (c # cs) =
     (if c = 123 then
        (if cs = [] then Inl ValueError
         else if hd cs = 123 then prepend [123] (py_format kw (tl cs))
         else
           (let field = takeWhile (\<lambda>x. x \<noteq> 125) cs;
                rest = dropWhile (\<lambda>x. x \<noteq> 125) cs
            in if rest = [] then Inl ValueError
               else if list_ex field_syntax (takeWhile (\<lambda>x. x \<noteq> 123) field)
                 then Inl FormatField
               else if 123 \<in> set field then Inl ValueError
               else if list_all is_digit field then Inl IndexError
               else (case map_of kw field of
                       None \<Rightarrow> Inl (KeyError field)
                     | Some v \<Rightarrow> prepend v (py_format kw (tl rest)))))
      else if c = 125 then
        (if cs \<noteq> [] \<and> hd cs = 125 then prepend [125] (py_format kw (tl cs))
         else Inl ValueError)
      else prepend [c] (py_format kw cs))"
  by pat_completeness auto
termination
proof (relation "measure (\<lambda>(kw, s). length s)")
  fix kw :: "(pystr \<times> pystr) list" and c :: nat and cs field rest :: pystr
  assume "rest = dropWhile (\<lambda>x. x \<noteq> 125) cs"
  then have "length (tl rest) \<le> length cs"
    using length_dropWhile_le [of "\<lambda>x. x \<noteq> 125" cs] by simp
  then show "((kw, tl rest), (kw, c # cs)) \<in> measure (\<lambda>(kw, s). length s)"
    by simp
qed (auto simp: less_Suc_eq_le)

declare py_format.simps [simp del]

section \<open>tool_mysql.py: the SQL statement builders\<close>

text \<open>
  What \<open>format_sql_value\<close> returns is \<open>None\<close>, an \<open>int\<close>, a \<open>float\<close> or a \<open>str\<close>; the same
  shapes are what a caller passes as \<open>update_columns_value\<close>.
\<close>

datatype sqlval = SNull | SInt int | SFloat pystr | SStr pystr

text \<open>
  \<open>format_sql_value\<close> (tool_mysql.py, line 106): a \<open>str\<close> is stripped, a \<open>list\<close> or
  \<open>dict\<close> becomes its JSON text, a date or time becomes \<open>str(value)\<close>, a \<open>bool\<close> becomes
  \<open>int(value)\<close>, anything else is returned as it is.
\<close>

fun format_sql_value :: "pyval \<Rightarrow> sqlval" where
  "format_sql_value (PStr s) = SStr (strip s)"
| "format_sql_value (PComposite j) = SStr j"
| "format_sql_value (PDate d) = SStr d"
| "format_sql_value (PBool b) = SInt (if b then 1 else 0)"
| "format_sql_value (PInt i) = SInt i"
| "format_sql_value (PFloat t) = SFloat t"
| "format_sql_value PNone = SNull"


text \<open>\<open>repr(v)\<close> and \<open>str(v)\<close> of such a value.\<close>

fun repr_val :: "(nat \<Rightarrow> bool) \<Rightarrow> sqlval \<Rightarrow> pystr" where
  "repr_val printable SNull = lit ''None''"
| "repr_val printable (SInt i) = str_int i"
| "repr_val printable (SFloat t) = t"
| "repr_val printable (SStr s) = repr_str printable s"

fun str_val :: "sqlval \<Rightarrow> pystr" where
  "str_val SNull = lit ''None''"
| "str_val (SInt i) = str_int i"
| "str_val (SFloat t) = t"
| "str_val (SStr s) = s"

text \<open>\<open>str(tuple(datas))\<close>: a tuple of one element is written with a trailing comma.\<close>

definition str_tuple :: "(nat \<Rightarrow> bool) \<Rightarrow> sqlval list \<Rightarrow> pystr" where
  "str_tuple printable datas =
     lit ''('' @ join (lit '', '') (map (repr_val printable) datas)
       @ (if length datas = 1 then lit '','' else []) @ lit '')''"

text \<open>
  \<open>list2str\<close> (line 122): \<open>re.sub(",\)$", ")", str(tuple(datas)))\<close> - a \<open>,)\<close> at the
  end of the text becomes \<open>)\<close>.
\<close>

definition list2str :: "(nat \<Rightarrow> bool) \<Rightarrow> sqlval list \<Rightarrow> pystr" where
  "list2str printable datas =
     (let data_str = str_tuple printable datas; n = length data_str
      in if 2 \<le> n \<and> drop (n - 2) data_str = lit '',)'' then take (n - 2) data_str @ lit '')''
         else data_str)"

text \<open>\<open>"`{}`".format(key)\<close>\<close>

definition backquoted :: "pystr \<Rightarrow> pystr" where
  "backquoted key = lit ''`'' @ key @ lit ''`''"

text \<open>\<open>list2str(keys).replace("'", "")\<close> for the back-quoted keys.\<close>

definition keys_text :: "(nat \<Rightarrow> bool) \<Rightarrow> pystr list \<Rightarrow> pystr" where
  "keys_text printable ks =
     str_replace [39] [] (list2str printable (map (\<lambda>key. SStr (backquoted key)) ks))"

text \<open>
  \<open>make_insert_sql\<close> (line 128). The template is first put together with \<open>%\<close>, which
  copies the joined \<open>update_columns\<close> into it, and then filled by
  \<open>str.format(table=..., keys=..., values=...)\<close>, so a brace in a column name is read
  by \<open>str.format\<close>. At last \<open>.replace("None", "null")\<close> runs over the whole statement.
\<close>

definition make_insert_sql ::
  "(nat \<Rightarrow> bool) \<Rightarrow> pystr \<Rightarrow> pydict \<Rightarrow> bool \<Rightarrow> columns \<Rightarrow> bool \<Rightarrow> exn + pystr" where
  "make_insert_sql printable table data auto_update update_columns insert_ignore =
     (let keys' = keys_text printable (keys data);
          values = list2str printable (map format_sql_value (vals data));
          ignore = (if insert_ignore then lit '' ignore'' else []);
          sql =
            (if truthy update_columns then
               (let update_columns' =
                      join (lit '', '')
                        (map (\<lambda>key. key @ lit ''=values('' @ key @ lit '')'') (as_list update_columns))
                in lit ''insert'' @ ignore
                     @ lit '' into `{table}` {keys} values {values} on duplicate key update ''
                     @ update_columns')
             else if auto_update then lit ''replace into `{table}` {keys} values {values}''
             else lit ''insert'' @ ignore @ lit '' into `{table}` {keys} values {values}'')
      in case py_format [(lit ''table'', table), (lit ''keys'', keys'), (lit ''values'', values)] sql of
           Inl e \<Rightarrow> Inl e
         | Inr sql' \<Rightarrow> Inr (str_replace (lit ''None'') (lit ''null'') sql'))"

text \<open>
  \<open>list(set(xs))\<close>: the elements of \<open>xs\<close>, each once, in the iteration order of a Python
  set. For strings that order follows their hash values, which differ from one process
  to the next; the program fixes nothing but that the result holds exactly the elements
  of \<open>xs\<close>, each once. The order is a parameter \<open>set_list\<close> of the builder, and
  \<open>set_iteration\<close> says that it is one a Python set can give.
\<close>

definition set_iteration :: "(pystr list \<Rightarrow> pystr list) \<Rightarrow> bool" where
  "set_iteration set_list = (\<forall>xs. distinct (set_list xs) \<and> set (set_list xs) = set xs)"

text \<open>\<open>list2str(["%s"] * n).replace("'", "")\<close>\<close>

definition placeholder_text :: "(nat \<Rightarrow> bool) \<Rightarrow> nat \<Rightarrow> pystr" where
  "placeholder_text printable n =
     str_replace [39] [] (list2str printable (replicate n (SStr (lit ''%s''))))"

text \<open>
  \<open>make_batch_sql\<close> (line 169). \<open>return\<close> without a value for an empty \<open>datas\<close> gives
  \<open>None\<close>; otherwise the result is the pair of the statement and the rows. Nothing in
  the function raises: \<open>dict.get\<close> and \<open>zip\<close> accept what they are given, and the
  templates of its calls of \<open>str.format\<close> are fixed texts. \<open>batch_keys\<close> is the list
  \<open>keys\<close> of line 184, \<open>batch_values\<close> the list \<open>values\<close> of lines 187 to 196.
\<close>

definition batch_keys :: "(pystr list \<Rightarrow> pystr list) \<Rightarrow> pydict list \<Rightarrow> pystr list" where
  "batch_keys set_list datas = set_list (concat (map keys datas))"

definition batch_values :: "pystr list \<Rightarrow> pydict list \<Rightarrow> sqlval list list" where
  "batch_values ks datas = map (\<lambda>data. map (\<lambda>key. format_sql_value (dict_get data key)) ks) datas"

definition make_batch_sql ::
  "(nat \<Rightarrow> bool) \<Rightarrow> (pystr list \<Rightarrow> pystr list) \<Rightarrow> pystr \<Rightarrow> pydict list \<Rightarrow> bool \<Rightarrow> columns
     \<Rightarrow> sqlval list \<Rightarrow> exn + (pystr \<times> sqlval list list) option" where
  "make_batch_sql printable set_list table datas auto_update update_columns update_columns_value =
     (if datas = [] then Inr None
      else
        (let ks = batch_keys set_list datas;
             values = batch_values ks datas;
             keys' = keys_text printable ks;
             values_placeholder = placeholder_text printable (length ks);
             filled = lit '' into `'' @ table @ lit ''` '' @ keys' @ lit '' values ''
                        @ values_placeholder
         in if truthy update_columns then
              (let update_columns' =
                     (if update_columns_value \<noteq> [] then
                        join (lit '', '')
                          (map (\<lambda>(key, value). lit ''`'' @ key @ lit ''`='' @ str_val value)
                             (zip (as_list update_columns) update_columns_value))
                      else
                        join (lit '', '')
                          (map (\<lambda>key. lit ''`'' @ key @ lit ''`=values(`'' @ key @ lit ''`)'')
                             (as_list update_columns)))
               in Inr (Some (lit ''insert'' @ filled @ lit '' on duplicate key update ''
                               @ update_columns',
                             values)))
            else if auto_update then Inr (Some (lit ''replace'' @ filled, values))
            else Inr (Some (lit ''insert ignore'' @ filled, values))))"




text \<open>
  The order in which the keys are met first, the order the specification names for the
  columns of a batch.
\<close>

definition first_seen :: "pystr list \<Rightarrow> pystr list" where
  "first_seen xs = rev (remdups (rev xs))"

text \<open>
  \<open>MysqlDB.add_batch\<close> (line 420) and \<open>MysqlDB.add_batch_smart\<close> (line 448). The
  cursor's \<open>executemany\<close> is the driver's; any exception of it is logged and the method
  returns \<open>None\<close>. \<open>add_batch_smart\<close> unpacks the builder's result into two names, which
  raises \<open>TypeError\<close> when the result is \<open>None\<close>.
\<close>

definition mysql_add_batch ::
  "(pystr \<Rightarrow> sqlval list list \<Rightarrow> exn + int) \<Rightarrow> pystr \<Rightarrow> sqlval list list \<Rightarrow> int option" where
  "mysql_add_batch executemany sql datas =
     (case executemany sql datas of Inl e \<Rightarrow> None | Inr affect_count \<Rightarrow> Some affect_count)"

definition add_batch_smart ::
  "(pystr \<Rightarrow> sqlval list list \<Rightarrow> exn + int) \<Rightarrow> (nat \<Rightarrow> bool) \<Rightarrow> (pystr list \<Rightarrow> pystr list)
     \<Rightarrow> pystr \<Rightarrow> pydict list \<Rightarrow> bool \<Rightarrow> columns \<Rightarrow> sqlval list \<Rightarrow> exn + int option" where
  "add_batch_smart executemany printable set_list table datas auto_update update_columns
       update_columns_value =
     (case make_batch_sql printable set_list table datas auto_update update_columns
             update_columns_value of
        Inl e \<Rightarrow> Inl e
      | Inr None \<Rightarrow> Inl TypeError
      | Inr (Some (sql, datas')) \<Rightarrow> Inr (mysql_add_batch executemany sql datas'))"

section \<open>tool_mongo.py: insert with conflict resolution\<close>

text \<open>
  The pymongo \<open>Collection\<close> object, with the four methods the wrapper calls. The store
  behind it has a state \<open>'s\<close>; every method returns the new state and the exception it
  raised, if any. \<open>insert_one\<close> also returns the document, which pymongo changes in
  place (it adds an \<open>_id\<close> to a document that has none). \<open>update_one\<close> takes the filter
  and the document of \<open>{"$set": doc}\<close>, \<open>replace_one\<close> the filter and the replacement.
\<close>

record 's collection =
  insert_one :: "'s \<Rightarrow> pydict \<Rightarrow> 's \<times> pydict \<times> exn option"
  insert_many :: "'s \<Rightarrow> pydict list \<Rightarrow> 's \<times> exn option"
  update_one :: "'s \<Rightarrow> pydict \<Rightarrow> pydict \<Rightarrow> 's \<times> exn option"
  replace_one :: "'s \<Rightarrow> pydict \<Rightarrow> pydict \<Rightarrow> 's \<times> exn option"

text \<open>\<open>d[k] = v\<close> and the dictionary a comprehension \<open>{key: value for ...}\<close> builds.\<close>

definition dict_set :: "pydict \<Rightarrow> pystr \<Rightarrow> pyval \<Rightarrow> pydict" where
  "dict_set d k v =
     (if k \<in> set (keys d) then map (\<lambda>(k', v'). if k' = k then (k', v) else (k', v')) d
      else d @ [(k, v)])"

definition dict_of :: "(pystr \<times> pyval) list \<Rightarrow> pydict" where
  "dict_of pairs = foldl (\<lambda>d (k, v). dict_set d k v) [] pairs"

text \<open>\<open>{key: data[key] for key in ks}\<close>: the first key that \<open>data\<close> lacks raises \<open>KeyError\<close>.\<close>

fun index_all :: "pydict \<Rightarrow> pystr list \<Rightarrow> exn + (pystr \<times> pyval) list" where
  "index_all data [] = Inr []"
| "index_all data (k # ks) =
     (case dict_index data k of
        Inl e \<Rightarrow> Inl e
      | Inr v \<Rightarrow> (case index_all data ks of Inl e \<Rightarrow> Inl e | Inr kvs \<Rightarrow> Inr ((k, v) # kvs)))"

definition dict_by_index :: "pydict \<Rightarrow> pystr list \<Rightarrow> exn + pydict" where
  "dict_by_index data ks = (case index_all data ks of Inl e \<Rightarrow> Inl e | Inr kvs \<Rightarrow> Inr (dict_of kvs))"

text \<open>\<open>{key: data.get(key) for key in ks}\<close>\<close>

definition dict_by_get :: "pydict \<Rightarrow> pystr list \<Rightarrow> pydict" where
  "dict_by_get data ks = dict_of (map (\<lambda>key. (key, dict_get data key)) ks)"

text \<open>
  \<open>self.__get_update_condition(coll_name, data, errmsg)\<close> is called at lines 165, 184
  and 244; tool_mongo.py holds no definition of a method of that name. The model takes
  it as a parameter \<open>get_update_condition\<close>: given the store, the collection name, the
  document and the error text, it raises or returns the filter.
\<close>

type_synonym 's condition_helper = "'s \<Rightarrow> string \<Rightarrow> pydict \<Rightarrow> string option \<Rightarrow> exn + pydict"

text \<open>
  \<open>MongoDB.add\<close> (line 135). \<open>affect_count\<close> is set to 1 at the start and returned at
  the end; no statement between changes it. Only \<open>DuplicateKeyError\<close> is caught.
\<close>

definition add ::
  "'s collection \<Rightarrow> 's condition_helper \<Rightarrow> 's \<Rightarrow> string \<Rightarrow> pydict \<Rightarrow> bool \<Rightarrow> columns
     \<Rightarrow> pyval list \<Rightarrow> bool \<Rightarrow> 's \<times> (exn + int)" where
  "add collection get_update_condition s coll_name data replace update_columns
       update_columns_value insert_ignore =
     (let affect_count = 1 in
      case insert_one collection s data of
        (s1, data1, None) \<Rightarrow> (s1, Inr affect_count)
      | (s1, data1, Some (DuplicateKeyError msg)) \<Rightarrow>
          if truthy update_columns then
            (case get_update_condition s1 coll_name data1 msg of
               Inl e \<Rightarrow> (s1, Inl e)
             | Inr condition \<Rightarrow>
                 (case (if update_columns_value \<noteq> []
                        then Inr (dict_of (zip (as_list update_columns) update_columns_value))
                        else dict_by_index data1 (as_list update_columns)) of
                    Inl e \<Rightarrow> (s1, Inl e)
                  | Inr doc \<Rightarrow>
                      (case update_one collection s1 condition doc of
                         (s2, Some e) \<Rightarrow> (s2, Inl e)
                       | (s2, None) \<Rightarrow> (s2, Inr affect_count))))
          else if replace then
            (case get_update_condition s1 coll_name data1 msg of
               Inl e \<Rightarrow> (s1, Inl e)
             | Inr condition \<Rightarrow>
                 (case replace_one collection s1 condition data1 of
                    (s2, Some e) \<Rightarrow> (s2, Inl e)
                  | (s2, None) \<Rightarrow> (s2, Inr affect_count)))
          else if \<not> insert_ignore then (s1, Inl (DuplicateKeyError msg))
          else (s1, Inr affect_count)
      | (s1, data1, Some e) \<Rightarrow> (s1, Inl e))"

text \<open>
  \<open>get_condition\<close>, the function nested in \<open>add_batch\<close> (line 235): with
  \<open>condition_fields\<close> the filter is read from the document by index, otherwise it is
  asked of \<open>__get_update_condition\<close>.
\<close>

definition get_condition ::
  "'s condition_helper \<Rightarrow> 's \<Rightarrow> pystr list \<Rightarrow> string \<Rightarrow> pydict \<Rightarrow> string option \<Rightarrow> exn + pydict" where
  "get_condition get_update_condition s condition_fields coll_name data msg =
     (if condition_fields \<noteq> [] then dict_by_index data condition_fields
      else get_update_condition s coll_name data msg)"

text \<open>
  The body of \<open>for error in write_errors\<close> for an error of code 11000 (line 230). The
  document of the update is built before \<open>get_condition()\<close> is called. The result is the
  new store and the exception raised, if any; when there is none, \<open>add_count -= 1\<close>
  follows on each of the three branches.
\<close>

definition resolve_conflict ::
  "'s collection \<Rightarrow> 's condition_helper \<Rightarrow> string \<Rightarrow> bool \<Rightarrow> pystr list \<Rightarrow> pyval list
     \<Rightarrow> pystr list \<Rightarrow> write_error \<Rightarrow> 's \<Rightarrow> 's \<times> exn option" where
  "resolve_conflict collection get_update_condition coll_name replace update_columns
       update_columns_value condition_fields error s =
     (let data = op error in
      if update_columns \<noteq> [] then
        (let doc = (if update_columns_value \<noteq> []
                    then dict_of (zip update_columns update_columns_value)
                    else dict_by_get data update_columns)
         in case get_condition get_update_condition s condition_fields coll_name data (errmsg error) of
              Inl e \<Rightarrow> (s, Some e)
            | Inr condition \<Rightarrow> update_one collection s condition doc)
      else if replace then
        (case get_condition get_update_condition s condition_fields coll_name data (errmsg error) of
           Inl e \<Rightarrow> (s, Some e)
         | Inr condition \<Rightarrow> replace_one collection s condition data)
      else (s, None))"

fun for_write_errors ::
  "'s collection \<Rightarrow> 's condition_helper \<Rightarrow> string \<Rightarrow> bool \<Rightarrow> pystr list \<Rightarrow> pyval list
     \<Rightarrow> pystr list \<Rightarrow> write_error list \<Rightarrow> 's \<Rightarrow> int \<Rightarrow> 's \<times> (exn + int)" where
  "for_write_errors collection guc coll_name replace ucs ucv cfs [] s add_count = (s, Inr add_count)"
| "for_write_errors collection guc coll_name replace ucs ucv cfs (error # write_errors) s add_count =
     (if code error = 11000 then
        (case resolve_conflict collection guc coll_name replace ucs ucv cfs error s of
           (s', Some e) \<Rightarrow> (s', Inl e)
         | (s', None) \<Rightarrow>
             for_write_errors collection guc coll_name replace ucs ucv cfs write_errors s' (add_count - 1))
      else for_write_errors collection guc coll_name replace ucs ucv cfs write_errors s add_count)"

text \<open>
  \<open>MongoDB.add_batch\<close> (line 195). \<open>update_columns\<close> is wrapped in a list before it is
  tested, so a single column, even an empty one, counts as given. Only
  \<open>BulkWriteError\<close> is caught.
\<close>

definition add_batch ::
  "'s collection \<Rightarrow> 's condition_helper \<Rightarrow> 's \<Rightarrow> string \<Rightarrow> pydict list \<Rightarrow> bool \<Rightarrow> columns
     \<Rightarrow> pyval list \<Rightarrow> pystr list \<Rightarrow> 's \<times> (exn + int)" where
  "add_batch collection get_update_condition s coll_name datas replace update_columns
       update_columns_value condition_fields =
     (let add_count = 0 in
      if datas = [] then (s, Inr add_count)
      else
        (let update_columns' = as_list update_columns;
             add_count = int (length datas)
         in case insert_many collection s datas of
              (s1, None) \<Rightarrow> (s1, Inr add_count)
            | (s1, Some (BulkWriteError write_errors)) \<Rightarrow>
                for_write_errors collection get_update_condition coll_name replace update_columns'
                  update_columns_value condition_fields write_errors s1 add_count
            | (s1, Some e) \<Rightarrow> (s1, Inl e)))"

subsection \<open>A store in memory\<close>

text \<open>
  A collection with one unique index, as an instance of the driver on which the
  scenarios are run: documents in insertion order, and the fields of the index. A
  filter \<open>{k: v, ...}\<close> matches a document that has these values (an absent field reads
  as \<open>None\<close>). \<open>_id\<close> fields are left out.
\<close>

record mem =
  docs :: "pydict list"
  unique_fields :: "pystr list"

definition same_key :: "pystr list \<Rightarrow> pydict \<Rightarrow> pydict \<Rightarrow> bool" where
  "same_key ks a b = list_all (\<lambda>k. dict_get a k = dict_get b k) ks"

definition matches :: "pydict \<Rightarrow> pydict \<Rightarrow> bool" where
  "matches condition d = list_all (\<lambda>(k, v). dict_get d k = v) condition"

definition duplicate :: "mem \<Rightarrow> pydict \<Rightarrow> bool" where
  "duplicate m d = list_ex (\<lambda>e. same_key (unique_fields m) e d) (docs m)"

definition mem_insert_one :: "mem \<Rightarrow> pydict \<Rightarrow> mem \<times> pydict \<times> exn option" where
  "mem_insert_one m d =
     (if duplicate m d then (m, d, Some (DuplicateKeyError (Some ''E11000 duplicate key error'')))
      else (m\<lparr>docs := docs m @ [d]\<rparr>, d, None))"

text \<open>\<open>insert_many(datas, ordered=False)\<close>: every document is tried; the ones that
  collide are reported together in one \<open>BulkWriteError\<close>.\<close>

fun mem_insert_each :: "mem \<Rightarrow> pydict list \<Rightarrow> mem \<times> write_error list" where
  "mem_insert_each m [] = (m, [])"
| "mem_insert_each m (d # ds) =
     (if duplicate m d then
        (case mem_insert_each m ds of
           (m', errs) \<Rightarrow>
             (m', \<lparr>code = 11000, op = d, errmsg = Some ''E11000 duplicate key error''\<rparr> # errs))
      else mem_insert_each (m\<lparr>docs := docs m @ [d]\<rparr>) ds)"

definition mem_insert_many :: "mem \<Rightarrow> pydict list \<Rightarrow> mem \<times> exn option" where
  "mem_insert_many m ds =
     (case mem_insert_each m ds of
        (m', errs) \<Rightarrow> (m', if errs = [] then None else Some (BulkWriteError errs)))"

fun change_first :: "(pydict \<Rightarrow> bool) \<Rightarrow> (pydict \<Rightarrow> pydict) \<Rightarrow> pydict list \<Rightarrow> pydict list" where
  "change_first P f [] = []"
| "change_first P f (d # ds) = (if P d then f d # ds else d # change_first P f ds)"

definition mem_update_one :: "mem \<Rightarrow> pydict \<Rightarrow> pydict \<Rightarrow> mem \<times> exn option" where
  "mem_update_one m condition doc =
     (m\<lparr>docs := change_first (matches condition)
                    (\<lambda>d. foldl (\<lambda>d (k, v). dict_set d k v) d doc) (docs m)\<rparr>, None)"

definition mem_replace_one :: "mem \<Rightarrow> pydict \<Rightarrow> pydict \<Rightarrow> mem \<times> exn option" where
  "mem_replace_one m condition d =
     (m\<lparr>docs := change_first (matches condition) (\<lambda>_. d) (docs m)\<rparr>, None)"

definition mem_collection :: "mem collection" where
  "mem_collection =
     \<lparr>insert_one = mem_insert_one, insert_many = mem_insert_many,
      update_one = mem_update_one, replace_one = mem_replace_one\<rparr>"

text \<open>
  The documents of the scenarios, and a collection \<open>users\<close> with a unique index on
  \<open>id\<close>, empty at first.
\<close>

definition row_a :: pydict where
  "row_a = [(lit ''id'', PInt 1), (lit ''name'', PStr (lit ''a''))]"

definition row_b :: pydict where
  "row_b = [(lit ''id'', PInt 1), (lit ''name'', PStr (lit ''b''))]"

definition row_c :: pydict where
  "row_c = [(lit ''id'', PInt 2), (lit ''name'', PStr (lit ''c''))]"

definition users :: mem where
  "users = \<lparr>docs = [], unique_fields = [lit ''id'']\<rparr>"

text \<open>
  A driver whose \<open>insert_many\<close> also reports a write error that is no conflict: a
  document without fields is refused with code 121, the others are inserted as before.
\<close>

definition validating_insert_many :: "mem \<Rightarrow> pydict list \<Rightarrow> mem \<times> exn option" where
  "validating_insert_many m ds =
     (case mem_insert_each m (filter (\<lambda>d. d \<noteq> []) ds) of
        (m', errs) \<Rightarrow>
          (let errs' = map (\<lambda>d. \<lparr>code = 121, op = d, errmsg = Some ''Document failed validation''\<rparr>)
                         (filter (\<lambda>d. d = []) ds) @ errs
           in (m', if errs' = [] then None else Some (BulkWriteError errs'))))"

definition validating_collection :: "mem collection" where
  "validating_collection = mem_collection\<lparr>insert_many := validating_insert_many\<rparr>"

text \<open>
  The helper as the file has it. Inside the class the name \<open>__get_update_condition\<close> is
  read as \<open>_MongoDB__get_update_condition\<close>; the class has no attribute of that name, so
  the lookup ends in \<open>__getattr__\<close> (line 436), which asks the pymongo database object,
  and that object has no attribute whose name starts with an underscore: the call
  raises \<open>AttributeError\<close>.
\<close>

definition method_missing :: "'s condition_helper" where
  "method_missing s coll_name data msg = Inl (AttributeError ''_MongoDB__get_update_condition'')"

section \<open>tool_redis.py: the key-value client\<close>

subsection \<open>Reconnecting\<close>

text \<open>
  What one call of \<open>get_connect()\<close> (line 108) comes to: it returns the answer of
  \<open>ping()\<close>, or it raises. The \<open>n\<close>-th call made by \<open>_reconnect\<close> has the outcome
  \<open>get_connect n\<close>; the server decides it.
\<close>

datatype outcome = Ping bool | Raises exn

text \<open>\<open>except (ConnectionError, TimeoutError)\<close>: the failures after which the loop goes on,
  together with a false answer of \<open>ping()\<close>.\<close>

fun retried :: "outcome \<Rightarrow> bool" where
  "retried (Ping ok) = (\<not> ok)"
| "retried (Raises e) = (e = ConnectionError \<or> e = TimeoutError)"

text \<open>
  \<open>RedisDB._reconnect\<close> (line 93): \<open>while True\<close>, with \<open>retry_count\<close> counted up for the
  log only and \<open>time.sleep(2)\<close> after every failed attempt (line 106). The loop is left
  by \<open>return True\<close> or by an exception that the \<open>except\<close> clause does not name, in both
  cases before the sleep. \<open>slept\<close> adds up the seconds spent in \<open>time.sleep\<close>. The result
  is \<open>None\<close> when the loop never ends; otherwise it holds what the call returned or
  raised, the number of attempts made and the seconds slept.
\<close>

partial_function (option) reconnect_loop ::
  "(nat \<Rightarrow> outcome) \<Rightarrow> nat \<Rightarrow> nat \<Rightarrow> ((exn + bool) \<times> nat \<times> nat) option" where
  "reconnect_loop get_connect retry_count slept =
     (case get_connect (retry_count + 1) of
        Ping ok \<Rightarrow>
          if ok then Some (Inr True, retry_count + 1, slept)
          else reconnect_loop get_connect (retry_count + 1) (slept + 2)
      | Raises e \<Rightarrow>
          if e = ConnectionError \<or> e = TimeoutError
          then reconnect_loop get_connect (retry_count + 1) (slept + 2)
          else Some (Inl e, retry_count + 1, slept))"

definition reconnect :: "(nat \<Rightarrow> outcome) \<Rightarrow> ((exn + bool) \<times> nat \<times> nat) option" where
  "reconnect get_connect = reconnect_loop get_connect 0 0"

text \<open>
  The property \<open>_redis\<close> (line 78), read at the start of every operation: \<open>probe\<close> is the
  outcome of \<open>self.__redis.ping()\<close>. A false answer and any exception both lead to
  \<open>_reconnect()\<close>; what that raises reaches the caller, and when it returns the client
  is handed out. The result holds the exception raised, if any, the number of attempts
  to reconnect and the seconds slept between them.
\<close>

definition redis_property :: "outcome \<Rightarrow> (nat \<Rightarrow> outcome) \<Rightarrow> (exn option \<times> nat \<times> nat) option" where
  "redis_property probe get_connect =
     (if probe = Ping True then Some (None, 0, 0)
      else (case reconnect get_connect of
              None \<Rightarrow> None
            | Some (Inl e, n, slept) \<Rightarrow> Some (Some e, n, slept)
            | Some (Inr ok, n, slept) \<Rightarrow> Some (None, n, slept)))"

subsection \<open>Lists and sets\<close>

text \<open>
  The server's lists and sets, by key; a key that does not exist holds nothing. A set
  is kept as the list of its members, each once. \<open>LPOP\<close> and \<open>SPOP\<close> answer \<open>None\<close> on
  an empty container. \<open>SPOP\<close> removes a member of the server's choice: \<open>pick\<close> gives its
  position. The operations below are those of one client on a live connection, where
  the property \<open>_redis\<close> hands out the client at once; what happens when the probe
  fails is the subject of the previous subsection.
\<close>

record redis =
  lists :: "string \<Rightarrow> string list"
  sets :: "string \<Rightarrow> string list"

definition redis_llen :: "redis \<Rightarrow> string \<Rightarrow> int" where
  "redis_llen r table = int (length (lists r table))"

definition redis_scard :: "redis \<Rightarrow> string \<Rightarrow> int" where
  "redis_scard r table = int (length (sets r table))"

definition redis_lpop :: "string \<Rightarrow> redis \<Rightarrow> redis \<times> string option" where
  "redis_lpop table r =
     (case lists r table of
        [] \<Rightarrow> (r, None)
      | x # xs \<Rightarrow> (r\<lparr>lists := (lists r)(table := xs)\<rparr>, Some x))"

definition redis_spop :: "(string list \<Rightarrow> nat) \<Rightarrow> string \<Rightarrow> redis \<Rightarrow> redis \<times> string option" where
  "redis_spop pick table r =
     (let xs = sets r table in
      if xs = [] then (r, None)
      else (let i = pick xs mod length xs
            in (r\<lparr>sets := (sets r)(table := take i xs @ drop (Suc i) xs)\<rparr>, Some (xs ! i))))"

definition redis_srem :: "string \<Rightarrow> string \<Rightarrow> redis \<Rightarrow> redis \<times> int" where
  "redis_srem table item r =
     (r\<lparr>sets := (sets r)(table := removeAll item (sets r table))\<rparr>,
      if item \<in> set (sets r table) then 1 else 0)"

text \<open>
  A pipeline is the list of the commands queued on it; \<open>pipe.execute()\<close> runs them in
  order and returns their answers. \<open>pipe_fill\<close> is the loop
  \<open>while count: pipe.cmd(table); count -= 1\<close>, entered with \<open>count > 1\<close>.
\<close>

fun pipe_execute :: "(redis \<Rightarrow> redis \<times> 'a) list \<Rightarrow> redis \<Rightarrow> redis \<times> 'a list" where
  "pipe_execute [] r = (r, [])"
| "pipe_execute (cmd # pipe) r =
     (case cmd r of (r1, x) \<Rightarrow> (case pipe_execute pipe r1 of (r2, xs) \<Rightarrow> (r2, x # xs)))"

fun pipe_fill :: "nat \<Rightarrow> (redis \<Rightarrow> redis \<times> 'a) \<Rightarrow> (redis \<Rightarrow> redis \<times> 'a) list \<Rightarrow> (redis \<Rightarrow> redis \<times> 'a) list" where
  "pipe_fill 0 cmd pipe = pipe"
| "pipe_fill (Suc count) cmd pipe = pipe_fill count cmd (pipe @ [cmd])"

text \<open>
  What \<open>lpop\<close> returns: \<open>None\<close> (the initial \<open>datas\<close>), the answer of a single \<open>LPOP\<close>,
  or the list of answers of the pipeline.
\<close>

datatype popped = NoData | Item "string option" | Items "string option list"

text \<open>\<open>RedisDB.lpop\<close> (line 289).\<close>

definition lpop :: "redis \<Rightarrow> string \<Rightarrow> int \<Rightarrow> redis \<times> popped" where
  "lpop r table count =
     (let lcount = redis_llen r table;
          count = (if count \<le> lcount then count else lcount)
      in if count \<noteq> 0 then
           (if count > 1 then
              (case pipe_execute (pipe_fill (nat count) (redis_lpop table) []) r of
                 (r', datas) \<Rightarrow> (r', Items datas))
            else (case redis_lpop table r of (r', x) \<Rightarrow> (r', Item x)))
         else (r, NoData))"

text \<open>
  \<open>RedisDB.sget\<close> (line 197). Without \<open>is_pop\<close> the members come from \<open>SRANDMEMBER\<close>,
  which changes nothing; \<open>srandmember\<close> is the server's choice.
\<close>

definition sget ::
  "(string list \<Rightarrow> nat) \<Rightarrow> (string list \<Rightarrow> int \<Rightarrow> string option list) \<Rightarrow> redis \<Rightarrow> string \<Rightarrow> int
     \<Rightarrow> bool \<Rightarrow> redis \<times> string option list" where
  "sget pick srandmember r table count is_pop =
     (if is_pop then
        (let count = (if count \<le> redis_scard r table then count else redis_scard r table)
         in if count \<noteq> 0 then
              (if count > 1 then pipe_execute (pipe_fill (nat count) (redis_spop pick table) []) r
               else (case redis_spop pick table r of (r', x) \<Rightarrow> (r', [] @ [x])))
            else (r, []))
      else (r, srandmember (sets r table) count))"

text \<open>The elements a result of \<open>lpop\<close> holds.\<close>

fun elements :: "popped \<Rightarrow> string option list" where
  "elements NoData = []"
| "elements (Item x) = [x]"
| "elements (Items xs) = xs"

text \<open>
  \<open>RedisDB.sdelete\<close> (line 245): \<open>cursor = "0"\<close>, then \<open>while cursor != "0"\<close> around a
  \<open>SSCAN\<close> and a pipeline of \<open>SREM\<close>s. \<open>sscan\<close> is the server's answer to a scan: the next
  cursor and a batch of members. The method has no \<open>return\<close>: when it ends, its value is
  \<open>None\<close> and the result here is the store it leaves.
\<close>

partial_function (option) sdelete_loop ::
  "(redis \<Rightarrow> string \<Rightarrow> string \<Rightarrow> string \<times> string list) \<Rightarrow> string \<Rightarrow> string \<Rightarrow> redis \<Rightarrow> redis option" where
  "sdelete_loop sscan table cursor r =
     (if cursor \<noteq> ''0'' then
        (case sscan r table cursor of
           (cursor', data) \<Rightarrow>
             sdelete_loop sscan table cursor'
               (fst (pipe_execute (map (redis_srem table) data) r)))
      else Some r)"

definition sdelete ::
  "(redis \<Rightarrow> string \<Rightarrow> string \<Rightarrow> string \<times> string list) \<Rightarrow> redis \<Rightarrow> string \<Rightarrow> redis option" where
  "sdelete sscan r table = sdelete_loop sscan table ''0'' r"

section \<open>tool_rabbitmq.py: connecting\<close>

text \<open>
  \<open>RabbitMqDB._connect\<close> (line 53): \<open>for attempt in range(1, self.reconnect_attempts + 1)\<close>.
  \<open>connect attempt\<close> tells whether the \<open>attempt\<close>-th try to open the connection and the
  channel succeeds. The result is the attempt that connected, \<open>None\<close> when the loop ends
  without one, or the \<open>ConnectionError\<close> raised after the last failure; the second
  component counts the calls of \<open>time.sleep(self.reconnect_delay)\<close>.
\<close>

fun connect_attempts :: "(nat \<Rightarrow> bool) \<Rightarrow> int \<Rightarrow> nat list \<Rightarrow> nat \<Rightarrow> (exn + nat option) \<times> nat" where
  "connect_attempts connect reconnect_attempts [] sleeps = (Inr None, sleeps)"
| "connect_attempts connect reconnect_attempts (attempt # rest) sleeps =
     (if connect attempt then (Inr (Some attempt), sleeps)
      else if int attempt < reconnect_attempts
        then connect_attempts connect reconnect_attempts rest (sleeps + 1)
      else (Inl ConnectionError, sleeps))"

definition rabbit_connect :: "(nat \<Rightarrow> bool) \<Rightarrow> int \<Rightarrow> (exn + nat option) \<times> nat" where
  "rabbit_connect connect reconnect_attempts =
     connect_attempts connect reconnect_attempts [1 ..< nat (reconnect_attempts + 1)] 0"

section \<open>Properties of the text functions\<close>

lemma lit_inject [simp]: "lit a = lit b \<longleftrightarrow> a = b"
proof -
  have "inj (of_char :: char \<Rightarrow> nat)" by (rule injI) simp
  then show ?thesis unfolding lit_def by (rule inj_map_eq_map)
qed

lemma lit_Nil [simp]: "lit s = [] \<longleftrightarrow> s = []"
  by (simp add: lit_def)


lemma lit_null: "lit ''null'' = [110, 117, 108, 108]"
  by (simp add: lit_def)

lemma lit_append: "lit (a @ b) = lit a @ lit b"
  by (simp add: lit_def)

subsection \<open>str.format on the templates of the builders\<close>



subsection \<open>Replacing None by null\<close>




subsection \<open>Where the word None can stand\<close>









subsection \<open>repr of a str\<close>











subsection \<open>Tuples and joined texts\<close>









text \<open>The equations by which a text of the program is computed on given input.\<close>

lemmas text_eval =
  lit_def keys_def vals_def dict_get_def Let_def str_int_def digits.simps strip_def py_isspace_def
  str_replace.simps repr_str_def repr_char_def str_tuple_def list2str_def backquoted_def
  keys_text_def placeholder_text_def batch_keys_def batch_values_def first_seen_def
  py_format.simps field_syntax_def is_digit_def

section \<open>The SQL statement builders: claims\<close>

lemma map_of_keys: "map_of data key = None \<longleftrightarrow> key \<notin> set (keys data)"
  by (simp add: keys_def map_of_eq_None_iff)

lemma dict_get_absent: "key \<notin> set (keys data) \<Longrightarrow> dict_get data key = PNone"
  using map_of_keys [of data key] by (simp add: dict_get_def)

lemma set_iteration_rev_remdups: "set_iteration (rev \<circ> remdups)"
  by (simp add: set_iteration_def)

lemma batch_values_nth:
  assumes "i < length datas" and "j < length ks"
  shows "batch_values ks datas ! i ! j =
           (if ks ! j \<in> set (keys (datas ! i)) then format_sql_value (dict_get (datas ! i) (ks ! j))
            else SNull)"
  using assms dict_get_absent [of "ks ! j" "datas ! i"] by (simp add: batch_values_def)

subsection \<open>C3: update columns and their replacement values\<close>

text \<open>
  C3, as the code has it. \<open>make_batch_sql\<close> checks no lengths and raises nothing: for a
  non-empty batch, given \<open>update_columns\<close> and a non-empty \<open>update_columns_value\<close> of
  any length, it returns the statement and the rows. The clause after
  \<open>on duplicate key update\<close> pairs the columns with the values by position (\<open>zip\<close>), as
  far as the shorter of the two reaches, and writes \<open>`column`=value\<close> for each pair; no
  value is looked up in a record. (\<open>make_insert_sql\<close> has no parameter for replacement
  values.)
\<close>

theorem make_batch_sql_pairs_by_position:
  assumes "datas \<noteq> []" and "truthy update_columns" and "update_columns_value \<noteq> []"
  shows "make_batch_sql printable set_list table datas auto_update update_columns
             update_columns_value =
           Inr (Some (lit ''insert into `'' @ table @ lit ''` ''
                        @ keys_text printable (batch_keys set_list datas)
                        @ lit '' values ''
                        @ placeholder_text printable (length (batch_keys set_list datas))
                        @ lit '' on duplicate key update ''
                        @ join (lit '', '')
                            (map (\<lambda>(key, value). lit ''`'' @ key @ lit ''`='' @ str_val value)
                               (zip (as_list update_columns) update_columns_value)),
                      batch_values (batch_keys set_list datas) datas))"
  using assms by (simp add: make_batch_sql_def Let_def lit_def)

text \<open>Three columns and two values: the third column is dropped, without an error.\<close>

theorem make_batch_sql_pairs_by_position_witness:
  "make_batch_sql (\<lambda>c. False) remdups (lit ''t'') [[(lit ''a'', PInt 1), (lit ''b'', PInt 2)]] True
       (Seq [lit ''a'', lit ''b'', lit ''c'']) [SInt 7, SStr (lit ''now()'')] =
     Inr (Some (lit ''insert into `t` (`a`, `b`) values (%s, %s) on duplicate key update `a`=7, `b`=now()'',
                [[SInt 1, SInt 2]]))"
proof -
  let ?datas = "[[(lit ''a'', PInt 1), (lit ''b'', PInt 2)]]"
  have h1: "?datas \<noteq> []" by simp
  have h2: "truthy (Seq [lit ''a'', lit ''b'', lit ''c''])" by simp
  have h3: "[SInt 7, SStr (lit ''now()'')] \<noteq> []" by simp
  have rhs: "(lit ''insert into `'' @ lit ''t'' @ lit ''` ''
                        @ keys_text (\<lambda>c. False) (batch_keys remdups ?datas)
                        @ lit '' values ''
                        @ placeholder_text (\<lambda>c. False) (length (batch_keys remdups ?datas))
                        @ lit '' on duplicate key update ''
                        @ join (lit '', '')
                            (map (\<lambda>(key, value). lit ''`'' @ key @ lit ''`='' @ str_val value)
                               (zip (as_list (Seq [lit ''a'', lit ''b'', lit ''c'']))
                                  [SInt 7, SStr (lit ''now()'')])),
                      batch_values (batch_keys remdups ?datas) ?datas)
      = (lit ''insert into `t` (`a`, `b`) values (%s, %s) on duplicate key update `a`=7, `b`=now()'',
                [[SInt 1, SInt 2]])"
    by (simp add: text_eval)
  show ?thesis
    using make_batch_sql_pairs_by_position [OF h1 h2 h3, of "\<lambda>c. False" remdups "lit ''t''" True]
    unfolding rhs .
qed

text \<open>
  The claim as stated fails: two columns with one value give a statement, not a
  \<open>ValidationError\<close>.
\<close>

theorem make_batch_sql_mismatch_counterexample:
  "make_batch_sql (\<lambda>c. False) remdups (lit ''t'') [[(lit ''a'', PInt 1)]] False
       (Seq [lit ''a'', lit ''b'']) [SInt 5] =
     Inr (Some (lit ''insert into `t` (`a`) values (%s) on duplicate key update `a`=5'',
                [[SInt 1]]))
   \<and> length [lit ''a'', lit ''b''] \<noteq> length [SInt 5]"
  by (simp add: make_batch_sql_def text_eval)

subsection \<open>C5: the columns of a batch\<close>

text \<open>
  C5, as the code has it. For a non-empty list of records \<open>make_batch_sql\<close> takes as
  columns the keys of all records, each once, in the order in which \<open>list(set(...))\<close>
  hands them out; that order is one fixed list for the column text and for every row,
  but it need not be the order in which the keys are first seen. The result holds one
  row per record, each as long as the column list, and a record that lacks a column
  has \<open>None\<close> at that column's place (any other place holds the coerced value).
\<close>

theorem make_batch_sql_columns:
  assumes "set_iteration set_list" and "datas \<noteq> []"
  shows "\<exists>verb tail rows.
           make_batch_sql printable set_list table datas auto_update update_columns
               update_columns_value =
             Inr (Some (verb @ lit '' into `'' @ table @ lit ''` ''
                          @ keys_text printable (batch_keys set_list datas)
                          @ lit '' values ''
                          @ placeholder_text printable (length (batch_keys set_list datas)) @ tail,
                        rows))
           \<and> distinct (batch_keys set_list datas)
           \<and> set (batch_keys set_list datas) = (\<Union>data \<in> set datas. set (keys data))
           \<and> length rows = length datas
           \<and> (\<forall>i < length datas.
                 length (rows ! i) = length (batch_keys set_list datas)
                 \<and> (\<forall>j < length (batch_keys set_list datas).
                       rows ! i ! j =
                         (if batch_keys set_list datas ! j \<in> set (keys (datas ! i))
                          then format_sql_value (dict_get (datas ! i) (batch_keys set_list datas ! j))
                          else SNull)))"
proof -
  let ?ks = "batch_keys set_list datas"
  let ?rows = "batch_values ?ks datas"
  from assms(1) have d: "distinct ?ks" and s: "set ?ks = (\<Union>data \<in> set datas. set (keys data))"
    by (auto simp: set_iteration_def batch_keys_def)
  have len: "length ?rows = length datas" by (simp add: batch_values_def)
  have row: "\<forall>i < length datas.
                 length (?rows ! i) = length ?ks
                 \<and> (\<forall>j < length ?ks.
                       ?rows ! i ! j =
                         (if ?ks ! j \<in> set (keys (datas ! i))
                          then format_sql_value (dict_get (datas ! i) (?ks ! j))
                          else SNull))"
    using batch_values_nth [of _ datas _ ?ks] by (simp add: batch_values_def)
  obtain verb tail where
    "make_batch_sql printable set_list table datas auto_update update_columns update_columns_value =
       Inr (Some (verb @ lit '' into `'' @ table @ lit ''` '' @ keys_text printable ?ks
                    @ lit '' values '' @ placeholder_text printable (length ?ks) @ tail, ?rows))"
  proof (cases "truthy update_columns")
    case True
    with assms(2) that [of "lit ''insert''"] show ?thesis
      by (simp add: make_batch_sql_def Let_def)
  next
    case False
    show ?thesis
    proof (cases auto_update)
      case True
      with False assms(2) that [of "lit ''replace''" "[]"] show ?thesis
        by (simp add: make_batch_sql_def Let_def)
    next
      case no: False
      with False assms(2) that [of "lit ''insert ignore''" "[]"] show ?thesis
        by (simp add: make_batch_sql_def Let_def)
    qed
  qed
  with d s len row show ?thesis by blast
qed

text \<open>
  Two records with one key each, and a set that hands out \<open>a\<close> before \<open>b\<close>: each row
  has \<open>None\<close> where its record has no value.
\<close>

theorem make_batch_sql_columns_witness:
  "\<exists>verb tail rows.
     make_batch_sql (\<lambda>c. False) (rev \<circ> remdups) (lit ''t'')
         [[(lit ''b'', PInt 1)], [(lit ''a'', PStr (lit ''x ''))]] False (Seq []) [] =
       Inr (Some (verb @ lit '' into `t` (`a`, `b`) values (%s, %s)'' @ tail, rows))
     \<and> rows ! 0 ! 0 = SNull \<and> rows ! 0 ! 1 = SInt 1
     \<and> rows ! 1 ! 0 = SStr (lit ''x'') \<and> rows ! 1 ! 1 = SNull"
proof -
  let ?datas = "[[(lit ''b'', PInt 1)], [(lit ''a'', PStr (lit ''x ''))]]"
  let ?ks = "[lit ''a'', lit ''b'']"
  have h2: "?datas \<noteq> []" by simp
  have ks: "batch_keys (rev \<circ> remdups) ?datas = ?ks" by (simp add: batch_keys_def keys_def)
  have kt: "keys_text (\<lambda>c. False) ?ks = lit ''(`a`, `b`)''" by (simp add: text_eval)
  have pt: "placeholder_text (\<lambda>c. False) (length ?ks) = lit ''(%s, %s)''"
    by (simp add: text_eval)
  have v: "format_sql_value (dict_get [(lit ''a'', PStr (lit ''x ''))] (lit ''a'')) = SStr (lit ''x'')"
          "format_sql_value (dict_get [(lit ''b'', PInt 1)] (lit ''b'')) = SInt 1"
    by (simp_all add: text_eval)
  from make_batch_sql_columns [OF set_iteration_rev_remdups h2, of "\<lambda>c. False" "lit ''t''" False "Seq []" "[]"]
  obtain verb tail rows where
    eq: "make_batch_sql (\<lambda>c. False) (rev \<circ> remdups) (lit ''t'') ?datas False (Seq []) [] =
       Inr (Some (verb @ lit '' into `'' @ lit ''t'' @ lit ''` '' @ keys_text (\<lambda>c. False) ?ks
                          @ lit '' values '' @ placeholder_text (\<lambda>c. False) (length ?ks) @ tail, rows))"
    and row: "\<forall>i < length ?datas.
                 length (rows ! i) = length ?ks
                 \<and> (\<forall>j < length ?ks.
                       rows ! i ! j =
                         (if ?ks ! j \<in> set (keys (?datas ! i))
                          then format_sql_value (dict_get (?datas ! i) (?ks ! j))
                          else SNull))"
    unfolding ks by blast
  from row have r0: "\<forall>j < 2. rows ! 0 ! j = (if ?ks ! j \<in> set (keys (?datas ! 0))
                          then format_sql_value (dict_get (?datas ! 0) (?ks ! j)) else SNull)"
    and r1: "\<forall>j < 2. rows ! 1 ! j = (if ?ks ! j \<in> set (keys (?datas ! 1))
                          then format_sql_value (dict_get (?datas ! 1) (?ks ! j)) else SNull)"
    by auto
  from r0 have "rows ! 0 ! 0 = SNull" "rows ! 0 ! 1 = SInt 1"
    using v by (auto simp: keys_def)
  moreover from r1 have "rows ! 1 ! 0 = SStr (lit ''x'')" "rows ! 1 ! 1 = SNull"
    using v by (auto simp: keys_def)
  moreover have "make_batch_sql (\<lambda>c. False) (rev \<circ> remdups) (lit ''t'') ?datas False (Seq []) [] =
       Inr (Some (verb @ lit '' into `t` (`a`, `b`) values (%s, %s)'' @ tail, rows))"
    using eq unfolding kt pt by (simp add: lit_def)
  ultimately show ?thesis by blast
qed

text \<open>
  The claim as stated fails on the order: with a set that iterates \<open>a\<close> before \<open>b\<close>, the
  records \<open>{"b": 1}\<close>, \<open>{"a": 2}\<close> get the columns \<open>a, b\<close>, while \<open>b\<close> is seen first.
\<close>

theorem make_batch_sql_order_counterexample:
  "set_iteration (rev \<circ> remdups)
   \<and> first_seen (concat (map keys [[(lit ''b'', PInt 1)], [(lit ''a'', PInt 2)]])) = [lit ''b'', lit ''a'']
   \<and> make_batch_sql (\<lambda>c. False) (rev \<circ> remdups) (lit ''t'')
         [[(lit ''b'', PInt 1)], [(lit ''a'', PInt 2)]] False (Seq []) [] =
       Inr (Some (lit ''insert ignore into `t` (`a`, `b`) values (%s, %s)'',
                  [[SNull, SInt 1], [SInt 2, SNull]]))"
proof -
  have "first_seen (concat (map keys [[(lit ''b'', PInt 1)], [(lit ''a'', PInt 2)]])) = [lit ''b'', lit ''a'']"
    by (simp add: first_seen_def keys_def)
  moreover have "make_batch_sql (\<lambda>c. False) (rev \<circ> remdups) (lit ''t'')
         [[(lit ''b'', PInt 1)], [(lit ''a'', PInt 2)]] False (Seq []) [] =
       Inr (Some (lit ''insert ignore into `t` (`a`, `b`) values (%s, %s)'',
                  [[SNull, SInt 1], [SInt 2, SNull]]))"
    by (simp add: make_batch_sql_def text_eval)
  ultimately show ?thesis using set_iteration_rev_remdups by simp
qed

subsection \<open>C7: an empty batch\<close>

text \<open>
  C7, as the code has it. For an empty list of records \<open>make_batch_sql\<close> raises nothing:
  it returns \<open>None\<close>, and builds no statement.
\<close>

theorem make_batch_sql_empty:
  "make_batch_sql printable set_list table [] auto_update update_columns update_columns_value =
     Inr None"
  by (simp add: make_batch_sql_def)

text \<open>The claim as stated fails: the result is the value \<open>None\<close>, not a \<open>ValidationError\<close>.\<close>

theorem make_batch_sql_empty_counterexample:
  "make_batch_sql (\<lambda>c. False) remdups (lit ''t'') [] False (Seq []) [] = Inr None
   \<and> make_batch_sql (\<lambda>c. False) remdups (lit ''t'') [] False (Seq []) [] \<noteq> Inl ValidationError"
  by (simp add: make_batch_sql_def)

text \<open>\<open>add_batch_smart\<close> unpacks that \<open>None\<close>, which raises \<open>TypeError\<close> before the driver is called.\<close>

lemma add_batch_smart_empty:
  "add_batch_smart executemany printable set_list table [] auto_update update_columns
       update_columns_value = Inl TypeError"
  by (simp add: add_batch_smart_def make_batch_sql_def)

subsection \<open>C8: the coercion of values\<close>




text \<open>
  With \<open>update_columns\<close> the columns are copied into the template before
  \<open>str.format\<close> reads it, so a brace in a column name is taken for a field.
\<close>

lemma make_insert_sql_update_columns:
  "make_insert_sql (\<lambda>c. False) (lit ''t'') [(lit ''a'', PInt 1)] False (Seq [lit ''a'']) False =
     Inr (lit ''insert into `t` (`a`) values (1) on duplicate key update a=values(a)'')
   \<and> make_insert_sql (\<lambda>c. False) (lit ''t'') [(lit ''a'', PInt 1)] False (Seq [lit ''{a}'']) False =
     Inl (KeyError (lit ''a''))"
  by (simp add: make_insert_sql_def text_eval)

section \<open>The key-value client: claims\<close>

lemma reconnect_loop_returned:
  assumes "reconnect_loop get_connect n s = Some y"
  shows "\<exists>i>n. \<not> retried (get_connect i)"
proof (rule reconnect_loop.raw_induct [OF _ assms])
  fix loop :: "(nat \<Rightarrow> outcome) \<Rightarrow> nat \<Rightarrow> nat \<Rightarrow> ((exn + bool) \<times> nat \<times> nat) option"
    and g m t z
  assume IH: "\<And>g m t z. loop g m t = Some z \<Longrightarrow> \<exists>i>m. \<not> retried (g i)"
    and body: "(case g (m + 1) of
                  Ping ok \<Rightarrow> if ok then Some (Inr True, m + 1, t) else loop g (m + 1) (t + 2)
                | Raises e \<Rightarrow>
                    if e = ConnectionError \<or> e = TimeoutError then loop g (m + 1) (t + 2)
                    else Some (Inl e, m + 1, t)) = Some z"
  show "\<exists>i>m. \<not> retried (g i)"
  proof (cases "retried (g (m + 1))")
    case True
    with body have "loop g (m + 1) (t + 2) = Some z"
      by (auto split: outcome.splits if_splits)
    then obtain i where "i > m + 1" "\<not> retried (g i)"
      using IH by blast
    then show ?thesis by (intro exI [of _ i]) simp
  next
    case False
    then show ?thesis by (intro exI [of _ "m + 1"]) simp
  qed
qed

lemma reconnect_loop_never_returns:
  "\<forall>i. retried (get_connect (Suc i)) \<Longrightarrow> reconnect_loop get_connect n s = None"
proof (rule ccontr)
  assume all: "\<forall>i. retried (get_connect (Suc i))" and "reconnect_loop get_connect n s \<noteq> None"
  then obtain y where "reconnect_loop get_connect n s = Some y" by auto
  then obtain i where "i > n" "\<not> retried (get_connect i)"
    using reconnect_loop_returned by blast
  with all show False by (cases i) auto
qed

text \<open>
  What the attempt that ends the loop makes of it: two seconds were slept after each
  attempt before it.
\<close>

lemma reconnect_loop_returns:
  assumes "n < k" and "\<forall>i. n < i \<and> i < k \<longrightarrow> retried (get_connect i)"
    and "\<not> retried (get_connect k)"
  shows "reconnect_loop get_connect n s =
           Some (case get_connect k of Ping ok \<Rightarrow> Inr True | Raises e \<Rightarrow> Inl e, k,
                 s + 2 * (k - n - 1))"
  using assms
proof (induction "k - n" arbitrary: n s)
  case 0
  then show ?case by simp
next
  case (Suc d)
  show ?case
  proof (cases "n + 1 = k")
    case True
    with Suc.prems(3) show ?thesis
      by (subst reconnect_loop.simps) (auto split: outcome.splits)
  next
    case False
    with Suc.prems have less: "n + 1 < k" and again: "retried (get_connect (n + 1))" by auto
    have "reconnect_loop get_connect (n + 1) (s + 2) =
            Some (case get_connect k of Ping ok \<Rightarrow> Inr True | Raises e \<Rightarrow> Inl e, k,
                  (s + 2) + 2 * (k - (n + 1) - 1))"
      using Suc.hyps(2) less Suc.prems(2,3) by (intro Suc.hyps(1)) auto
    moreover have "(s + 2) + 2 * (k - (n + 1) - 1) = s + 2 * (k - n - 1)"
      using less by simp
    ultimately show ?thesis using again
      by (subst reconnect_loop.simps) (auto split: outcome.splits)
  qed
qed

lemma connect_attempts_all_fail:
  assumes "\<forall>attempt. \<not> connect attempt" and "1 \<le> a" and "int a \<le> n"
  shows "connect_attempts connect n [a ..< nat (n + 1)] sleeps = (Inl ConnectionError, sleeps + (nat n - a))"
  using assms(2,3)
proof (induction "nat n - a" arbitrary: a sleeps)
  case 0
  then have a: "a = nat n" by auto
  then have "[a ..< nat (n + 1)] = [a]" using 0 by (simp add: nat_add_distrib upt_rec)
  with assms(1) a 0 show ?case by simp
next
  case (Suc d)
  then have less: "int a < n" by auto
  then have "[a ..< nat (n + 1)] = a # [Suc a ..< nat (n + 1)]" by (simp add: upt_rec)
  moreover have "connect_attempts connect n [Suc a ..< nat (n + 1)] (sleeps + 1) =
      (Inl ConnectionError, sleeps + 1 + (nat n - Suc a))"
    using Suc.hyps(2) less by (intro Suc.hyps(1)) auto
  ultimately show ?case using assms(1) less Suc.hyps(2) by simp
qed

lemma rabbit_connect_all_fail:
  assumes "\<forall>attempt. \<not> connect attempt" and "1 \<le> reconnect_attempts"
  shows "rabbit_connect connect reconnect_attempts = (Inl ConnectionError, nat reconnect_attempts - 1)"
  using connect_attempts_all_fail [OF assms(1), of 1 reconnect_attempts 0] assms(2)
  by (simp add: rabbit_connect_def)

subsection \<open>C4: reconnecting after a failed probe\<close>

text \<open>
  C4, as the code has it. When the liveness probe of an operation on \<open>RedisDB\<close> fails,
  \<open>_reconnect\<close> runs, and it has no bound on its attempts: it sleeps two seconds after
  each failed attempt and tries again for as long as \<open>get_connect\<close> raises
  \<open>ConnectionError\<close> or \<open>TimeoutError\<close> or \<open>ping()\<close> answers false. So the property
  \<open>_redis\<close> never returns exactly when every attempt fails in one of these ways; when
  the first attempt that does not is attempt \<open>k + 1\<close>, whatever \<open>k\<close> is, the property
  returns after \<open>k + 1\<close> attempts and \<open>2 * k\<close> seconds of sleep, with the client if the
  attempt connected and with the exception the attempt raised otherwise. No
  \<open>ConnectionLost\<close> or other final failure is raised for repeated connection errors.
  \<open>RabbitMqDB._connect\<close>, in contrast, is bounded: when all of its
  \<open>reconnect_attempts\<close> (at least one) fail, it raises \<open>ConnectionError\<close> after
  \<open>reconnect_attempts - 1\<close> delays.
\<close>

theorem failed_probe_reconnects_without_bound:
  assumes "probe \<noteq> Ping True"
  shows "(redis_property probe get_connect = None \<longleftrightarrow> (\<forall>i. retried (get_connect (Suc i))))
       \<and> (\<forall>k. (\<forall>i<k. retried (get_connect (Suc i))) \<and> \<not> retried (get_connect (Suc k)) \<longrightarrow>
              redis_property probe get_connect =
                Some (case get_connect (Suc k) of Ping ok \<Rightarrow> None | Raises e \<Rightarrow> Some e,
                      Suc k, 2 * k))
       \<and> (1 \<le> reconnect_attempts \<and> (\<forall>attempt. \<not> connect attempt) \<longrightarrow>
              rabbit_connect connect reconnect_attempts =
                (Inl ConnectionError, nat reconnect_attempts - 1))"
proof (intro conjI allI impI)
  show "redis_property probe get_connect = None \<longleftrightarrow> (\<forall>i. retried (get_connect (Suc i)))"
  proof
    assume "redis_property probe get_connect = None"
    with assms have none: "reconnect_loop get_connect 0 0 = None"
      by (auto simp: redis_property_def reconnect_def split: option.splits prod.splits sum.splits)
    show "\<forall>i. retried (get_connect (Suc i))"
    proof (rule ccontr)
      assume "\<not> (\<forall>i. retried (get_connect (Suc i)))"
      then obtain j where j: "\<not> retried (get_connect (Suc j))" by blast
      define k where "k = (LEAST j. \<not> retried (get_connect (Suc j)))"
      have k: "\<not> retried (get_connect (Suc k))" unfolding k_def using j by (rule LeastI)
      have "\<forall>i. 0 < i \<and> i < Suc k \<longrightarrow> retried (get_connect i)"
      proof (intro allI impI)
        fix i assume "0 < i \<and> i < Suc k"
        then obtain i' where i': "i = Suc i'" "i' < k" by (cases i) auto
        then show "retried (get_connect i)" using not_less_Least k_def by blast
      qed
      then have "reconnect_loop get_connect 0 0 \<noteq> None"
        using reconnect_loop_returns [of 0 "Suc k" get_connect 0] k by simp
      with none show False by simp
    qed
  next
    assume "\<forall>i. retried (get_connect (Suc i))"
    then have "reconnect_loop get_connect 0 0 = None" by (rule reconnect_loop_never_returns)
    with assms show "redis_property probe get_connect = None"
      by (simp add: redis_property_def reconnect_def)
  qed
next
  fix k
  assume a: "(\<forall>i<k. retried (get_connect (Suc i))) \<and> \<not> retried (get_connect (Suc k))"
  have "\<forall>i. 0 < i \<and> i < Suc k \<longrightarrow> retried (get_connect i)"
  proof (intro allI impI)
    fix i assume "0 < i \<and> i < Suc k"
    then obtain i' where "i = Suc i'" "i' < k" by (cases i) auto
    with a show "retried (get_connect i)" by simp
  qed
  then have "reconnect_loop get_connect 0 0 =
      Some (case get_connect (Suc k) of Ping ok \<Rightarrow> Inr True | Raises e \<Rightarrow> Inl e, Suc k, 2 * k)"
    using reconnect_loop_returns [of 0 "Suc k" get_connect 0] a by simp
  with assms show "redis_property probe get_connect =
      Some (case get_connect (Suc k) of Ping ok \<Rightarrow> None | Raises e \<Rightarrow> Some e, Suc k, 2 * k)"
    by (simp add: redis_property_def reconnect_def split: outcome.splits)
next
  assume "1 \<le> reconnect_attempts \<and> (\<forall>attempt. \<not> connect attempt)"
  then show "rabbit_connect connect reconnect_attempts = (Inl ConnectionError, nat reconnect_attempts - 1)"
    using rabbit_connect_all_fail by blast
qed

text \<open>
  Two attempts time out and the third connects: three attempts, four seconds of sleep.
\<close>

theorem failed_probe_reconnects_without_bound_witness:
  "redis_property (Ping False) (\<lambda>n. if n < 3 then Raises TimeoutError else Ping True) =
     Some (None, 3, 4)
   \<and> rabbit_connect (\<lambda>attempt. False) 3 = (Inl ConnectionError, 2)"
proof -
  let ?g = "\<lambda>n::nat. if n < 3 then Raises TimeoutError else Ping True"
  have p: "Ping False \<noteq> Ping True" by simp
  note T = failed_probe_reconnects_without_bound [OF p, of ?g 3 "\<lambda>attempt. False"]
  have g: "(\<forall>i<2. retried (?g (Suc i))) \<and> \<not> retried (?g (Suc 2))" by simp
  from T have "(\<forall>i<2. retried (?g (Suc i))) \<and> \<not> retried (?g (Suc 2)) \<longrightarrow>
      redis_property (Ping False) ?g =
        Some (case ?g (Suc 2) of Ping ok \<Rightarrow> None | Raises e \<Rightarrow> Some e, Suc 2, 2 * 2)"
    by blast
  with g have "redis_property (Ping False) ?g =
        Some (case ?g (Suc 2) of Ping ok \<Rightarrow> None | Raises e \<Rightarrow> Some e, Suc 2, 2 * 2)"
    by blast
  then have first: "redis_property (Ping False) ?g = Some (None, 3, 4)" by simp
  from T have "1 \<le> (3::int) \<and> (\<forall>attempt. \<not> (\<lambda>attempt::nat. False) attempt) \<longrightarrow>
      rabbit_connect (\<lambda>attempt. False) 3 = (Inl ConnectionError, nat 3 - 1)"
    by blast
  then have "rabbit_connect (\<lambda>attempt. False) 3 = (Inl ConnectionError, 2)" by simp
  with first show ?thesis by simp
qed

text \<open>
  The claim as stated fails: when every attempt to connect fails with
  \<open>ConnectionError\<close> (or every \<open>ping()\<close> answers false), the operation does not fail; it
  never returns.
\<close>

theorem reconnect_never_gives_up_counterexample:
  "redis_property (Ping False) (\<lambda>n. Raises ConnectionError) = None
   \<and> redis_property (Raises ConnectionError) (\<lambda>n. Ping False) = None"
proof -
  have "reconnect_loop (\<lambda>n. Raises ConnectionError) 0 0 = None"
    by (rule reconnect_loop_never_returns) simp
  moreover have "reconnect_loop (\<lambda>n. Ping False) 0 0 = None"
    by (rule reconnect_loop_never_returns) simp
  ultimately show ?thesis by (simp add: redis_property_def reconnect_def)
qed

subsection \<open>C6: popping more than there is\<close>

lemma pipe_fill_eq: "pipe_fill n cmd pipe = pipe @ replicate n cmd"
  by (induction n arbitrary: pipe) (simp_all add: replicate_app_Cons_same)

lemma lpop_all:
  "lists r table = xs \<Longrightarrow>
   pipe_execute (replicate (length xs) (redis_lpop table)) r =
     (r\<lparr>lists := (lists r)(table := [])\<rparr>, map Some xs)"
proof (induction xs arbitrary: r)
  case Nil
  then have "(lists r)(table := []) = lists r" by auto
  then show ?case by simp
next
  case (Cons x xs)
  let ?r' = "r\<lparr>lists := (lists r)(table := xs)\<rparr>"
  have step: "redis_lpop table r = (?r', Some x)"
    using Cons.prems by (simp add: redis_lpop_def)
  have "lists ?r' table = xs" by simp
  then have "pipe_execute (replicate (length xs) (redis_lpop table)) ?r' =
      (?r'\<lparr>lists := (lists ?r')(table := [])\<rparr>, map Some xs)"
    by (rule Cons.IH)
  moreover have "?r'\<lparr>lists := (lists ?r')(table := [])\<rparr> = r\<lparr>lists := (lists r)(table := [])\<rparr>"
    by simp
  ultimately have rest: "pipe_execute (replicate (length xs) (redis_lpop table)) ?r' =
      (r\<lparr>lists := (lists r)(table := [])\<rparr>, map Some xs)"
    by (rule trans [OF _ arg_cong2 [of _ _ _ _ Pair, OF _ refl]])
  have "pipe_execute (replicate (length (x # xs)) (redis_lpop table)) r =
      (case redis_lpop table r of (r1, y) \<Rightarrow>
         (case pipe_execute (replicate (length xs) (redis_lpop table)) r1 of (r2, ys) \<Rightarrow> (r2, y # ys)))"
    by simp
  also have "\<dots> = (r\<lparr>lists := (lists r)(table := [])\<rparr>, map Some (x # xs))"
    unfolding step prod.case rest by simp
  finally show ?case .
qed

lemma set_without_nth:
  "i < length xs \<Longrightarrow> insert (xs ! i) (set (take i xs @ drop (Suc i) xs)) = set xs"
proof -
  assume "i < length xs"
  then have "xs = take i xs @ xs ! i # drop (Suc i) xs" by (rule id_take_nth_drop)
  then have "set xs = set (take i xs @ xs ! i # drop (Suc i) xs)" by simp
  then show ?thesis by simp
qed

lemma spop_all:
  "length (sets r table) = n \<Longrightarrow>
   \<exists>ys. pipe_execute (replicate n (redis_spop pick table)) r =
          (r\<lparr>sets := (sets r)(table := [])\<rparr>, ys)
        \<and> length ys = n \<and> set ys = Some ` set (sets r table)"
proof (induction n arbitrary: r)
  case 0
  then have "(sets r)(table := []) = sets r" by auto
  then show ?case using 0 by simp
next
  case (Suc n)
  let ?xs = "sets r table"
  let ?i = "pick ?xs mod length ?xs"
  let ?r' = "r\<lparr>sets := (sets r)(table := take ?i ?xs @ drop (Suc ?i) ?xs)\<rparr>"
  from Suc.prems have ne: "?xs \<noteq> []" and i: "?i < length ?xs" by auto
  have step: "redis_spop pick table r = (?r', Some (?xs ! ?i))"
    using ne by (simp add: redis_spop_def Let_def)
  have "length (sets ?r' table) = n" using Suc.prems i by simp
  from Suc.IH [OF this] obtain ys where
    ys: "pipe_execute (replicate n (redis_spop pick table)) ?r' =
           (?r'\<lparr>sets := (sets ?r')(table := [])\<rparr>, ys)"
    and len: "length ys = n"
    and st: "set ys = Some ` set (sets ?r' table)" by blast
  have "set (Some (?xs ! ?i) # ys) = Some ` insert (?xs ! ?i) (set (take ?i ?xs @ drop (Suc ?i) ?xs))"
    using st by simp
  also have "\<dots> = Some ` set ?xs" using set_without_nth [OF i] by simp
  finally have st': "set (Some (?xs ! ?i) # ys) = Some ` set ?xs" .
  have same: "?r'\<lparr>sets := (sets ?r')(table := [])\<rparr> = r\<lparr>sets := (sets r)(table := [])\<rparr>"
    by simp
  have "pipe_execute (replicate (Suc n) (redis_spop pick table)) r =
      (case redis_spop pick table r of (r1, y) \<Rightarrow>
         (case pipe_execute (replicate n (redis_spop pick table)) r1 of (r2, zs) \<Rightarrow> (r2, y # zs)))"
    by simp
  also have "\<dots> = (r\<lparr>sets := (sets r)(table := [])\<rparr>, Some (?xs ! ?i) # ys)"
    unfolding step prod.case ys same by simp
  finally have run: "pipe_execute (replicate (Suc n) (redis_spop pick table)) r =
      (r\<lparr>sets := (sets r)(table := [])\<rparr>, Some (?xs ! ?i) # ys)" .
  have "length (Some (?xs ! ?i) # ys) = Suc n" using len by simp
  with run st' show ?case by blast
qed

text \<open>
  C6. For a list of \<open>K\<close> elements and a \<open>count\<close> above \<open>K\<close>, \<open>lpop\<close> returns exactly the
  \<open>K\<close> elements, in the order of the list, and leaves the list empty; for a set of
  \<open>K\<close> members, \<open>sget\<close> with \<open>is_pop\<close> returns \<open>K\<close> elements, which are the members of
  the set, and leaves the set empty. Neither has a path that raises. (\<open>lpop\<close> hands
  the elements out as \<open>None\<close> when there is none, as the element itself when there is
  one, and as a list otherwise; \<open>elements\<close> reads all three.)
\<close>

theorem pop_clamps_to_what_is_there:
  "(int (length (lists r table)) < count \<longrightarrow>
      fst (lpop r table count) = r\<lparr>lists := (lists r)(table := [])\<rparr>
      \<and> elements (snd (lpop r table count)) = map Some (lists r table))
   \<and> (int (length (sets r table)) < count \<longrightarrow>
      fst (sget pick srandmember r table count True) = r\<lparr>sets := (sets r)(table := [])\<rparr>
      \<and> length (snd (sget pick srandmember r table count True)) = length (sets r table)
      \<and> set (snd (sget pick srandmember r table count True)) = Some ` set (sets r table))"
proof (intro conjI impI)
  assume less: "int (length (lists r table)) < count"
  let ?xs = "lists r table"
  consider "?xs = []" | x where "?xs = [x]" | "2 \<le> length ?xs"
    by (cases ?xs rule: list.exhaust; cases "tl ?xs") (auto simp: Suc_le_eq)
  then have "fst (lpop r table count) = r\<lparr>lists := (lists r)(table := [])\<rparr>
      \<and> elements (snd (lpop r table count)) = map Some ?xs"
  proof cases
    case 1
    then have "(lists r)(table := []) = lists r" by auto
    with 1 less show ?thesis by (simp add: lpop_def redis_llen_def)
  next
    case 2
    with less show ?thesis by (simp add: lpop_def redis_llen_def redis_lpop_def)
  next
    case 3
    then have "?xs \<noteq> []" by auto
    with 3 less lpop_all [of r table ?xs] show ?thesis
      by (simp add: lpop_def redis_llen_def pipe_fill_eq Let_def)
  qed
  then show "fst (lpop r table count) = r\<lparr>lists := (lists r)(table := [])\<rparr>"
    and "elements (snd (lpop r table count)) = map Some ?xs" by simp_all
next
  assume less: "int (length (sets r table)) < count"
  let ?xs = "sets r table"
  let ?cmd = "redis_spop pick table"
  from spop_all [of r table "length ?xs" pick] obtain ys where
    ys: "pipe_execute (replicate (length ?xs) ?cmd) r = (r\<lparr>sets := (sets r)(table := [])\<rparr>, ys)"
    and len: "length ys = length ?xs" and st: "set ys = Some ` set ?xs" by blast
  consider "?xs = []" | "length ?xs = 1" | "2 \<le> length ?xs"
    by (cases ?xs rule: list.exhaust; cases "tl ?xs") (auto simp: Suc_le_eq)
  then have "fst (sget pick srandmember r table count True) = r\<lparr>sets := (sets r)(table := [])\<rparr>
      \<and> length (snd (sget pick srandmember r table count True)) = length ?xs
      \<and> set (snd (sget pick srandmember r table count True)) = Some ` set ?xs"
  proof cases
    case 1
    then have "(sets r)(table := []) = sets r" by auto
    with 1 less show ?thesis by (simp add: sget_def redis_scard_def)
  next
    case 2
    then obtain x where x: "?xs = [x]" by (cases ?xs) auto
    with less show ?thesis by (simp add: sget_def redis_scard_def redis_spop_def Let_def)
  next
    case 3
    then have "?xs \<noteq> []" by auto
    with 3 less ys len st show ?thesis
      by (simp add: sget_def redis_scard_def pipe_fill_eq Let_def)
  qed
  then show "fst (sget pick srandmember r table count True) = r\<lparr>sets := (sets r)(table := [])\<rparr>"
    and "length (snd (sget pick srandmember r table count True)) = length ?xs"
    and "set (snd (sget pick srandmember r table count True)) = Some ` set ?xs" by simp_all
qed

theorem pop_clamps_to_what_is_there_witness:
  "elements (snd (lpop \<lparr>lists = (\<lambda>_. [])(''q'' := [''a'', ''b'', ''c'']), sets = (\<lambda>_. [])(''q'' := [''x'', ''y''])\<rparr> ''q'' 5))
     = [Some ''a'', Some ''b'', Some ''c'']
   \<and> lists (fst (lpop \<lparr>lists = (\<lambda>_. [])(''q'' := [''a'', ''b'', ''c'']), sets = (\<lambda>_. [])(''q'' := [''x'', ''y''])\<rparr> ''q'' 5)) ''q'' = []
   \<and> length (snd (sget (\<lambda>_. 0) (\<lambda>_ _. []) \<lparr>lists = (\<lambda>_. [])(''q'' := [''a'', ''b'', ''c'']), sets = (\<lambda>_. [])(''q'' := [''x'', ''y''])\<rparr> ''q'' 5 True)) = 2
   \<and> sets (fst (sget (\<lambda>_. 0) (\<lambda>_ _. []) \<lparr>lists = (\<lambda>_. [])(''q'' := [''a'', ''b'', ''c'']), sets = (\<lambda>_. [])(''q'' := [''x'', ''y''])\<rparr> ''q'' 5 True)) ''q'' = []"
  using pop_clamps_to_what_is_there
    [of "\<lparr>lists = (\<lambda>_. [])(''q'' := [''a'', ''b'', ''c'']), sets = (\<lambda>_. [])(''q'' := [''x'', ''y''])\<rparr>"
        "''q''" 5 "\<lambda>_. 0" "\<lambda>_ _. []"]
  by simp

subsection \<open>C10: sdelete\<close>

text \<open>
  C10. \<open>sdelete\<close> starts with the cursor \<open>"0"\<close>, so the condition of its loop is false
  on entry: for every table and whatever the server would answer to a scan, it returns
  (the value \<open>None\<close>) and the store is the one it was called with.
\<close>

theorem sdelete_removes_nothing: "sdelete sscan r table = Some r"
  unfolding sdelete_def by (subst sdelete_loop.simps) simp

section \<open>Insert with conflict resolution: claims\<close>

subsection \<open>C1: the count of a batch\<close>

text \<open>Write errors of another code are passed over.\<close>

lemma for_write_errors_conflicts_only:
  "for_write_errors collection guc coll_name replace ucs ucv cfs write_errors s n =
   for_write_errors collection guc coll_name replace ucs ucv cfs
     (filter (\<lambda>error. code error = 11000) write_errors) s n"
  by (induction write_errors arbitrary: s n) (auto split: prod.splits option.splits)

text \<open>As long as no resolution raises, every conflict takes one off the count.\<close>

lemma for_write_errors_resolved:
  assumes "\<forall>error \<in> set write_errors. \<forall>s'. code error = 11000 \<longrightarrow>
             snd (resolve_conflict collection guc coll_name replace ucs ucv cfs error s') = None"
  shows "for_write_errors collection guc coll_name replace ucs ucv cfs write_errors s n =
           (foldl (\<lambda>s' error. fst (resolve_conflict collection guc coll_name replace ucs ucv cfs error s'))
              s (filter (\<lambda>error. code error = 11000) write_errors),
            Inr (n - int (length (filter (\<lambda>error. code error = 11000) write_errors))))"
  using assms
proof (induction write_errors arbitrary: s n)
  case Nil
  then show ?case by simp
next
  case (Cons error write_errors)
  show ?case
  proof (cases "code error = 11000")
    case True
    with Cons.prems have "snd (resolve_conflict collection guc coll_name replace ucs ucv cfs error s) = None"
      by simp
    then obtain s' where s': "resolve_conflict collection guc coll_name replace ucs ucv cfs error s = (s', None)"
      by (cases "resolve_conflict collection guc coll_name replace ucs ucv cfs error s") auto
    have "for_write_errors collection guc coll_name replace ucs ucv cfs write_errors s' (n - 1) =
           (foldl (\<lambda>s' error. fst (resolve_conflict collection guc coll_name replace ucs ucv cfs error s'))
              s' (filter (\<lambda>error. code error = 11000) write_errors),
            Inr (n - 1 - int (length (filter (\<lambda>error. code error = 11000) write_errors))))"
      using Cons.prems by (intro Cons.IH) simp
    with True s' show ?thesis by simp
  next
    case False
    with Cons show ?thesis by simp
  qed
qed

text \<open>When a conflict is only logged, nothing can raise and the store is left as it is.\<close>

lemma resolve_conflict_logged:
  "ucs = [] \<Longrightarrow> \<not> replace \<Longrightarrow>
   resolve_conflict collection guc coll_name replace ucs ucv cfs error s = (s, None)"
  by (simp add: resolve_conflict_def)

lemma for_write_errors_logged:
  assumes "ucs = []" and "\<not> replace"
  shows "for_write_errors collection guc coll_name replace ucs ucv cfs write_errors s n =
           (s, Inr (n - int (length (filter (\<lambda>error. code error = 11000) write_errors))))"
  by (induction write_errors arbitrary: n) (simp_all add: resolve_conflict_logged [OF assms])

text \<open>
  Without condition fields, an update or a replace asks the helper for the condition,
  and the first conflict ends the loop with the helper's \<open>AttributeError\<close>.
\<close>

lemma resolve_conflict_method_missing:
  "ucs \<noteq> [] \<or> replace \<Longrightarrow>
   resolve_conflict collection method_missing coll_name replace ucs ucv [] error s =
     (s, Some (AttributeError ''_MongoDB__get_update_condition''))"
  by (auto simp: resolve_conflict_def get_condition_def method_missing_def Let_def)

lemma for_write_errors_method_missing:
  assumes "ucs \<noteq> [] \<or> replace"
  shows "list_ex (\<lambda>error. code error = 11000) write_errors \<Longrightarrow>
         for_write_errors collection method_missing coll_name replace ucs ucv [] write_errors s n =
           (s, Inl (AttributeError ''_MongoDB__get_update_condition''))"
  by (induction write_errors) (auto simp: resolve_conflict_method_missing [OF assms])

lemma no_conflict: "\<not> list_ex P xs \<Longrightarrow> filter P xs = []"
  by (induction xs) auto

lemma add_batch_inserted:
  "datas \<noteq> [] \<Longrightarrow> insert_many collection s datas = (s1, None) \<Longrightarrow>
   add_batch collection guc s coll_name datas replace update_columns ucv cfs = (s1, Inr (int (length datas)))"
  by (simp add: add_batch_def)

text \<open>With condition fields, for every driver and whatever the helper does.\<close>

lemma add_batch_resolved:
  assumes "datas \<noteq> []"
    and "insert_many collection s datas = (s1, Some (BulkWriteError write_errors))"
    and "\<forall>error \<in> set write_errors. \<forall>s'. code error = 11000 \<longrightarrow>
           snd (resolve_conflict collection guc coll_name replace (as_list update_columns)
                  update_columns_value condition_fields error s') = None"
  shows "add_batch collection guc s coll_name datas replace update_columns update_columns_value
           condition_fields =
           (foldl (\<lambda>s' error. fst (resolve_conflict collection guc coll_name replace
                                     (as_list update_columns) update_columns_value condition_fields
                                     error s'))
              s1 (filter (\<lambda>error. code error = 11000) write_errors),
            Inr (int (length datas)
                 - int (length (filter (\<lambda>error. code error = 11000) write_errors))))"
  using assms(1,2) for_write_errors_resolved [OF assms(3)]
  by (simp add: add_batch_def)

text \<open>
  Three records: one is refused by validation, one collides and is updated through the
  condition field \<open>id\<close>, one is inserted. The result is \<open>3 - 1\<close>.
\<close>

lemma add_batch_condition_fields:
  "add_batch validating_collection method_missing (users\<lparr>docs := [row_a]\<rparr>) ''users''
     [[], row_b, row_c] False (Seq [lit ''name'']) [] [lit ''id''] =
     (users\<lparr>docs := [row_b, row_c]\<rparr>, Inr 2)"
  by (simp add: add_batch_def validating_collection_def validating_insert_many_def duplicate_def
      same_key_def resolve_conflict_def get_condition_def dict_by_index_def dict_index_def
      dict_by_get_def dict_get_def dict_of_def dict_set_def keys_def matches_def
      mem_collection_def mem_update_one_def users_def row_a_def row_b_def row_c_def)

text \<open>A condition field that the colliding record lacks raises \<open>KeyError\<close>.\<close>

lemma add_batch_key_error:
  "add_batch mem_collection method_missing (users\<lparr>docs := [row_a]\<rparr>) ''users''
     [row_b] False (Seq [lit ''name'']) [] [lit ''uid''] =
     (users\<lparr>docs := [row_a]\<rparr>, Inl (KeyError (lit ''uid'')))"
  by (simp add: add_batch_def mem_collection_def mem_insert_many_def duplicate_def same_key_def
      resolve_conflict_def get_condition_def dict_by_index_def dict_index_def dict_get_def
      users_def row_a_def row_b_def)

text \<open>
  C1, as the file has it, for a call without \<open>condition_fields\<close> (the default). Take a
  non-empty batch of \<open>N\<close> records whose bulk insert reports write errors, \<open>M\<close> of them
  with the duplicate-key code 11000. If an update or a replace is asked for and there
  is a conflict, the first conflict calls \<open>__get_update_condition\<close>, which the class
  does not define: \<open>add_batch\<close> raises \<open>AttributeError\<close> and returns no count, and the
  store is the one the bulk insert left, so no conflicting record is updated or
  replaced. Otherwise every conflict is only logged and \<open>add_batch\<close> returns \<open>N - M\<close>;
  the write errors of any other code are passed over. This holds for every driver.
\<close>

theorem add_batch_without_condition_fields:
  assumes "datas \<noteq> []"
    and "insert_many collection s datas = (s1, Some (BulkWriteError write_errors))"
  shows "add_batch collection method_missing s coll_name datas replace update_columns
           update_columns_value [] =
           (s1,
            if (as_list update_columns \<noteq> [] \<or> replace)
               \<and> list_ex (\<lambda>error. code error = 11000) write_errors
            then Inl (AttributeError ''_MongoDB__get_update_condition'')
            else Inr (int (length datas)
                      - int (length (filter (\<lambda>error. code error = 11000) write_errors))))"
proof (cases "as_list update_columns \<noteq> [] \<or> replace")
  case True
  show ?thesis
  proof (cases "list_ex (\<lambda>error. code error = 11000) write_errors")
    case conflict: True
    then show ?thesis
      using assms True for_write_errors_method_missing [OF True conflict]
      by (auto simp: add_batch_def)
  next
    case False
    then have none: "filter (\<lambda>error. code error = 11000) write_errors = []" by (rule no_conflict)
    have "for_write_errors collection method_missing coll_name replace (as_list update_columns)
            update_columns_value [] write_errors s1 (int (length datas)) =
          (s1, Inr (int (length datas)))"
      using for_write_errors_conflicts_only
        [of collection method_missing coll_name replace "as_list update_columns"
            update_columns_value "[]" write_errors s1 "int (length datas)"]
      unfolding none by simp
    with assms False none show ?thesis by (simp add: add_batch_def)
  qed
next
  case False
  then have "as_list update_columns = []" "\<not> replace" by auto
  then show ?thesis
    using assms for_write_errors_logged by (simp add: add_batch_def)
qed

text \<open>
  Two records, of which the first collides: with \<open>update_columns = ["name"]\<close> the call
  raises and the stored row stays as it was; without, the conflict is logged and the
  result is \<open>2 - 1\<close>.
\<close>

theorem add_batch_without_condition_fields_witness:
  "add_batch mem_collection method_missing (users\<lparr>docs := [row_a]\<rparr>) ''users''
     [row_b, row_c] False (Seq [lit ''name'']) [] [] =
     (users\<lparr>docs := [row_a, row_c]\<rparr>, Inl (AttributeError ''_MongoDB__get_update_condition''))
   \<and> add_batch mem_collection method_missing (users\<lparr>docs := [row_a]\<rparr>) ''users''
     [row_b, row_c] False (Seq []) [] [] =
     (users\<lparr>docs := [row_a, row_c]\<rparr>, Inr 1)"
proof -
  let ?errs = "[\<lparr>code = 11000, op = row_b, errmsg = Some ''E11000 duplicate key error''\<rparr>]"
  have h1: "[row_b, row_c] \<noteq> []" by simp
  have h2: "insert_many mem_collection (users\<lparr>docs := [row_a]\<rparr>) [row_b, row_c] =
      (users\<lparr>docs := [row_a, row_c]\<rparr>, Some (BulkWriteError ?errs))"
    by (simp add: mem_collection_def mem_insert_many_def duplicate_def same_key_def
        dict_get_def users_def row_a_def row_b_def row_c_def)
  show ?thesis
    using add_batch_without_condition_fields [OF h1 h2, of "''users''" False "Seq [lit ''name'']" "[]"]
          add_batch_without_condition_fields [OF h1 h2, of "''users''" False "Seq []" "[]"]
    by simp
qed

subsection \<open>C2: the same key inserted twice\<close>

lemma add_returns_one:
  "snd (add collection guc s coll_name data replace update_columns update_columns_value insert_ignore) = Inr n
   \<Longrightarrow> n = 1"
  by (auto simp: add_def Let_def split: prod.splits option.splits exn.splits sum.splits if_splits)

lemma add_first: "add mem_collection guc users ''users'' row_a False (Seq []) [] False =
    (users\<lparr>docs := [row_a]\<rparr>, Inr 1)"
  by (simp add: add_def mem_collection_def mem_insert_one_def duplicate_def users_def)

lemma add_second_insert:
  "mem_insert_one (users\<lparr>docs := [row_a]\<rparr>) row_b =
     (users\<lparr>docs := [row_a]\<rparr>, row_b, Some (DuplicateKeyError (Some ''E11000 duplicate key error'')))"
  by (simp add: mem_insert_one_def duplicate_def users_def same_key_def dict_get_def row_a_def row_b_def)

lemma set_name: "dict_by_index row_b [lit ''name''] = Inr [(lit ''name'', PStr (lit ''b''))]"
  by (simp add: dict_by_index_def dict_index_def row_b_def dict_of_def dict_set_def keys_def)

lemma update_name:
  "mem_update_one (users\<lparr>docs := [row_a]\<rparr>) condition [(lit ''name'', PStr (lit ''b''))] =
     (users\<lparr>docs := (if matches condition row_a then [row_b] else [row_a])\<rparr>, None)"
  by (simp add: mem_update_one_def dict_set_def keys_def row_a_def row_b_def)

text \<open>
  C2, evaluated. \<open>{"id": 1, "name": "a"}\<close> is inserted into the empty collection, then
  \<open>add\<close> is called with \<open>{"id": 1, "name": "b"}\<close> and \<open>update_columns = ["name"]\<close>.
  Whatever the condition helper does, the second call does not report 0: if the helper
  raises, \<open>add\<close> raises the same and the stored row stays \<open>{"id": 1, "name": "a"}\<close>; if
  it returns a condition, the row matching it is updated and \<open>add\<close> returns 1.
\<close>

theorem add_twice:
  "(case add mem_collection guc users ''users'' row_a False (Seq []) [] False of
      (s1, r1) \<Rightarrow>
        r1 = Inr 1 \<and> docs s1 = [row_a] \<and>
        (case add mem_collection guc s1 ''users'' row_b False (Seq [lit ''name'']) [] False of
           (s2, r2) \<Rightarrow>
             r2 \<noteq> Inr 0 \<and>
             (case guc s1 ''users'' row_b (Some ''E11000 duplicate key error'') of
                Inl e \<Rightarrow> r2 = Inl e \<and> docs s2 = [row_a]
              | Inr condition \<Rightarrow>
                  r2 = Inr 1 \<and> docs s2 = (if matches condition row_a then [row_b] else [row_a]))))"
proof -
  let ?s1 = "users\<lparr>docs := [row_a]\<rparr>"
  have second: "add mem_collection guc ?s1 ''users'' row_b False (Seq [lit ''name'']) [] False =
      (case guc ?s1 ''users'' row_b (Some ''E11000 duplicate key error'') of
         Inl e \<Rightarrow> (?s1, Inl e)
       | Inr condition \<Rightarrow>
           (users\<lparr>docs := (if matches condition row_a then [row_b] else [row_a])\<rparr>, Inr 1))"
    by (simp add: add_def mem_collection_def add_second_insert set_name update_name split: sum.splits)
  show ?thesis
    unfolding add_first prod.case second
    by (simp split: sum.splits)
qed

text \<open>With the helper as the file has it, the second call raises and nothing is updated.\<close>

lemma add_twice_method_missing:
  "add mem_collection method_missing (users\<lparr>docs := [row_a]\<rparr>) ''users'' row_b False
     (Seq [lit ''name'']) [] False =
     (users\<lparr>docs := [row_a]\<rparr>, Inl (AttributeError ''_MongoDB__get_update_condition''))"
  by (simp add: add_def mem_collection_def add_second_insert method_missing_def)

subsection \<open>C9: a condition that cannot be derived\<close>

text \<open>
  C9, as the file has it. When \<open>insert_one\<close> raises a duplicate-key error and an update
  or a replace is asked for, \<open>add\<close> calls \<open>__get_update_condition\<close>, which the class
  does not define. Whatever the error text is, the call raises \<open>AttributeError\<close>, not a
  \<open>ConflictResolutionError\<close>, and no text is parsed; the store is the one the failed
  insert left, so neither \<open>update_one\<close> nor \<open>replace_one\<close> has run. This holds for every
  driver.
\<close>

theorem add_conflict_raises_attribute_error:
  assumes "insert_one collection s data = (s1, data1, Some (DuplicateKeyError msg))"
    and "truthy update_columns \<or> replace"
  shows "add collection method_missing s coll_name data replace update_columns
           update_columns_value insert_ignore =
           (s1, Inl (AttributeError ''_MongoDB__get_update_condition''))"
  using assms by (auto simp: add_def method_missing_def)

text \<open>A replace of the row that collides.\<close>

theorem add_conflict_raises_attribute_error_witness:
  "add mem_collection method_missing (users\<lparr>docs := [row_a]\<rparr>) ''users'' row_b
       True (Seq []) [] False =
     (users\<lparr>docs := [row_a]\<rparr>, Inl (AttributeError ''_MongoDB__get_update_condition''))
   \<and> Inl (AttributeError ''_MongoDB__get_update_condition'') \<noteq> (Inl ConflictResolutionError :: exn + int)"
proof -
  have ins: "insert_one mem_collection (users\<lparr>docs := [row_a]\<rparr>) row_b =
     (users\<lparr>docs := [row_a]\<rparr>, row_b, Some (DuplicateKeyError (Some ''E11000 duplicate key error'')))"
    by (simp add: mem_collection_def add_second_insert)
  have r: "truthy (Seq []) \<or> True" by simp
  show ?thesis
    using add_conflict_raises_attribute_error [OF ins r, of "''users''" "[]" False]
    by simp
qed

end
